theory Spec2Isabelle
  imports Main "HOL-Library.AList"
begin

section \<open>Python strings\<close>

text \<open>
  Texts are lists of characters. A \<^typ>\<open>char\<close> is a code point below 256, so the model
  covers the Latin-1 range of Python's \<^verbatim>\<open>str\<close>; \<open>isspace\<close> lists the code points of that
  range for which Python's \<^verbatim>\<open>str.isspace\<close> is true.
\<close>

definition isspace :: "char \<Rightarrow> bool" where
  "isspace c = (of_char c \<in> {9, 10, 11, 12, 13, 28, 29, 30, 31, 32, 133, 160 :: nat})"

text \<open>\<^verbatim>\<open>s.strip()\<close>: leading and trailing whitespace removed.\<close>

definition strip :: "string \<Rightarrow> string" where
  "strip s = rev (dropWhile isspace (rev (dropWhile isspace s)))"

text \<open>\<^verbatim>\<open>s.startswith(p)\<close>.\<close>

definition startswith :: "string \<Rightarrow> string \<Rightarrow> bool" where
  "startswith s p = (take (length p) s = p)"

text \<open>
  \<^verbatim>\<open>re.search(r'^File: .*', s, re.MULTILINE)\<close> as a truth value. The search tries every
  position from left to right; with \<^verbatim>\<open>re.MULTILINE\<close> the anchor \<^verbatim>\<open>^\<close> holds at the start
  of the text and right after each line feed, and \<^verbatim>\<open>.*\<close> also matches the empty string.
  The flag \<open>bol\<close> says whether the current position is at the beginning of a line.
\<close>

fun search_file_line :: "bool \<Rightarrow> string \<Rightarrow> bool" where
  "search_file_line bol [] = False"
| "search_file_line bol (c # cs) =
     ((bol \<and> startswith (c # cs) ''File: '') \<or> search_file_line (c = CHR 0x0A) cs)"

text \<open>\<^verbatim>\<open>s.count('```')\<close>: the number of non-overlapping fences, found from left to right.\<close>

fun count_fences :: "string \<Rightarrow> nat" where
  "count_fences (a # b # c # rest) =
     (if a = CHR 0x60 \<and> b = CHR 0x60 \<and> c = CHR 0x60 then Suc (count_fences rest)
      else count_fences (b # c # rest))"
| "count_fences _ = 0"

text \<open>\<^verbatim>\<open>sub in s\<close> for texts: \<open>sub\<close> occurs somewhere in \<open>s\<close>.\<close>

fun str_in :: "string \<Rightarrow> string \<Rightarrow> bool" where
  "str_in sub [] = (sub = [])"
| "str_in sub (c # cs) = (startswith (c # cs) sub \<or> str_in sub cs)"

text \<open>\<^verbatim>\<open>sep.join(xs)\<close>.\<close>

fun join :: "string \<Rightarrow> string list \<Rightarrow> string" where
  "join sep [] = []"
| "join sep [x] = x"
| "join sep (x # y # ys) = x @ sep @ join sep (y # ys)"

text \<open>The lines of a text, split at line feeds (a text of \<open>n\<close> line feeds has \<open>n + 1\<close> lines).\<close>

fun split_lines :: "string \<Rightarrow> string list" where
  "split_lines [] = [[]]"
| "split_lines (c # cs) =
     (if c = CHR 0x0A then [] # split_lines cs
      else (case split_lines cs of [] \<Rightarrow> [[c]] | l # ls \<Rightarrow> (c # l) # ls))"

text \<open>
  \<^verbatim>\<open>re.findall(r'^File: (.*)', s, re.MULTILINE)\<close>: the rest of every line that starts with
  \<^verbatim>\<open>File: \<close>.
\<close>

definition findall_file_lines :: "string \<Rightarrow> string list" where
  "findall_file_lines s =
     map (drop 6) (filter (\<lambda>l. startswith l ''File: '') (split_lines s))"

section \<open>The format validator\<close>

text \<open>
  \<^verbatim>\<open>BugFixerAgent._validate_code_snippet_format\<close>. The result is the returned truth value
  together with the warnings handed to the logger.
\<close>

definition validate_code_snippet_format :: "string \<Rightarrow> bool \<times> string list" where
  "validate_code_snippet_format code_content =
     (if strip code_content = [] then (False, [])
      else if \<not> search_file_line True code_content then (False, [])
      else if \<not> (count_fences code_content \<ge> 2)
        then (True, [''Generated code snippet might be missing markdown code block fences.''])
      else (True, []))"

section \<open>Configuration, defect catalogue and collaborators\<close>

text \<open>
  \<^verbatim>\<open>Config\<close>: the fields the pipeline reads. The sampling parameters are floating-point
  constants handed to the API unchanged; the report prints the temperature, kept here as
  its printed text.
\<close>

record config =
  model_name :: string
  max_retries :: int
  temperature :: string
  max_output_tokens :: int

definition Config :: config where
  "Config = \<lparr>model_name = ''models/gemini-2.5-flash'', max_retries = 5,
              temperature = ''0.1'', max_output_tokens = 16384\<rparr>"

text \<open>A defect of the catalogue (a dictionary with exactly these five keys).\<close>

record bug =
  b_name :: string
  b_description :: string
  b_files :: "string list"
  b_root_cause :: string
  b_fix_summary :: string

text \<open>\<^verbatim>\<open>BugDefinitions.get_bug_by_name\<close> over the list \<^verbatim>\<open>planted_bugs\<close>.\<close>

fun get_bug_by_name :: "bug list \<Rightarrow> string \<Rightarrow> bug option" where
  "get_bug_by_name [] bug_name = None"
| "get_bug_by_name (bug # planted_bugs) bug_name =
     (if b_name bug = bug_name then Some bug else get_bug_by_name planted_bugs bug_name)"

text \<open>
  The dictionary that \<^verbatim>\<open>analyze_bug\<close> returns for a known defect. The result of the static
  analysis of one file is kept abstract (\<open>'sa\<close>); \<open>Inl\<close> holds the message of an exception
  caught while analysing that file.
\<close>

record 'sa analysis =
  a_bug_info :: bug
  a_static_analysis :: "(string \<times> (string + 'sa)) list"
  a_context :: string

text \<open>
  One round trip to the generation API: the call raises (with a message), or it returns a
  response. \<open>ApiResponse None\<close> stands for a missing response object and for a response
  whose text is \<^verbatim>\<open>None\<close>; both loops treat the two alike.
\<close>

datatype api_reply = ApiRaise string | ApiResponse "string option"

text \<open>
  \<^verbatim>\<open>Prompts\<close> is not part of the sources at hand: its methods are parameters. A fix
  prompt builder that raises returns \<open>Inl\<close> with the message; the other two methods are
  called outside any \<^verbatim>\<open>try\<close> block and are taken to return.
\<close>

record 'sa prompts =
  bug_defs :: "bug list"
  generate_enhanced_prompt :: "string \<Rightarrow> string \<Rightarrow> 'sa analysis \<Rightarrow> string + string"
  extract_relevant_files :: "string \<Rightarrow> string list \<Rightarrow> string"
  generate_failure_analysis_prompt :: "string \<Rightarrow> string \<Rightarrow> string \<Rightarrow> string \<Rightarrow> string"

text \<open>
  \<^verbatim>\<open>BugFixerAgent\<close>. The client answers the \<open>n\<close>-th call of the run (counted from 0) for a
  given prompt; \<open>analyze_file\<close> is \<^verbatim>\<open>CodeAnalyzer.analyze_file\<close> on a path below the project
  root, with \<open>Inl\<close> for an exception.
\<close>

record 'sa agent =
  config :: config
  prompts :: "'sa prompts"
  client :: "nat \<Rightarrow> string \<Rightarrow> api_reply"
  analyze_file :: "string \<Rightarrow> string + 'sa"

text \<open>What the run does to the outside: API calls made and seconds slept.\<close>

record world =
  api_calls :: nat
  slept :: nat

definition sleep :: "nat \<Rightarrow> world \<Rightarrow> world" where
  "sleep n w = w\<lparr>slept := slept w + n\<rparr>"

definition called :: "world \<Rightarrow> world" where
  "called w = w\<lparr>api_calls := Suc (api_calls w)\<rparr>"

section \<open>The fix generator\<close>

text \<open>
  \<^verbatim>\<open>analyze_bug\<close>: \<open>Inl\<close> is the dictionary with the single key \<^verbatim>\<open>error\<close>. The dictionary of
  per-file results is filled in the order of the affected files; writing a key again
  replaces its value in place.
\<close>

definition analyze_bug :: "'sa agent \<Rightarrow> string \<Rightarrow> string \<Rightarrow> string + 'sa analysis" where
  "analyze_bug self bug_name codebase_content =
     (case get_bug_by_name (bug_defs (prompts self)) bug_name of
        None \<Rightarrow> Inl (''Bug '' @ [CHR 0x27] @ bug_name @ [CHR 0x27] @ '' not found in definitions'')
      | Some bug_info \<Rightarrow>
          Inr \<lparr>a_bug_info = bug_info,
               a_static_analysis =
                 foldl (\<lambda>analysis_results file_path.
                          AList.update file_path (analyze_file self file_path) analysis_results)
                   [] (b_files bug_info),
               a_context = codebase_content\<rparr>)"

text \<open>Values of the metadata dictionary returned with a fix.\<close>

datatype 'sa meta_value = MStr string | MInt int | MAnalysis "'sa analysis"

type_synonym 'sa metadata = "(string \<times> 'sa meta_value) list"

text \<open>What one pass through a retry loop's body decides.\<close>

datatype 'r step = Continue world | Return 'r world

text \<open>The body of the retry loop of \<^verbatim>\<open>generate_fix\<close> for the attempt with index \<open>attempt\<close>.\<close>

definition fix_attempt ::
  "'sa agent \<Rightarrow> string \<Rightarrow> 'sa analysis \<Rightarrow> string \<Rightarrow> int \<Rightarrow> world \<Rightarrow> (string \<times> 'sa metadata) step"
where
  "fix_attempt self bug_name analysis prompt attempt w =
     (case client self (api_calls w) prompt of
        ApiRaise e \<Rightarrow>
          if attempt < max_retries (config self) - 1 then Continue (sleep 2 (called w))
          else Return ('''', [(''error'', MStr (''API call failed: '' @ e))]) (called w)
      | ApiResponse text \<Rightarrow>
          if text = None \<or> text = Some [] then
            if attempt = max_retries (config self) - 1
            then Return ('''', [(''error'', MStr ''No response from API after max retries'')]) (called w)
            else Continue (sleep 2 (called w))
          else
            let generated_code_snippet = strip (the text) in
            if \<not> fst (validate_code_snippet_format generated_code_snippet) then
              if attempt = max_retries (config self) - 1
              then Return ('''', [(''error'', MStr ''No valid code snippet generated after max retries'')])
                     (called w)
              else Continue (sleep 2 (called w))
            else
              Return (generated_code_snippet,
                      [(''bug_name'', MStr bug_name),
                       (''analysis'', MAnalysis analysis),
                       (''attempts'', MInt (attempt + 1)),
                       (''model_used'', MStr (model_name (config self)))])
                (called w))"

text \<open>\<^verbatim>\<open>for attempt in range(self.config.max_retries)\<close>, and the return after the loop.\<close>

function generate_fix_loop ::
  "'sa agent \<Rightarrow> string \<Rightarrow> 'sa analysis \<Rightarrow> string \<Rightarrow> int \<Rightarrow> world \<Rightarrow> (string \<times> 'sa metadata) \<times> world"
where
  "generate_fix_loop self bug_name analysis prompt attempt w =
     (if attempt < max_retries (config self) then
        (case fix_attempt self bug_name analysis prompt attempt w of
           Continue w' \<Rightarrow> generate_fix_loop self bug_name analysis prompt (attempt + 1) w'
         | Return r w' \<Rightarrow> (r, w'))
      else (('''', [(''error'', MStr ''Failed to generate fix after all retries'')]), w))"
  by pat_completeness auto
termination
  by (relation "measure (\<lambda>(self, bug_name, analysis, prompt, attempt, w).
                   nat (max_retries (config self) - attempt))") auto

text \<open>\<^verbatim>\<open>BugFixerAgent.generate_fix\<close>: the code, the metadata, and the world after the call.\<close>

definition generate_fix ::
  "'sa agent \<Rightarrow> string \<Rightarrow> string \<Rightarrow> world \<Rightarrow> (string \<times> 'sa metadata) \<times> world"
where
  "generate_fix self bug_name codebase_content w =
     (case analyze_bug self bug_name codebase_content of
        Inl err \<Rightarrow> (('''', [(''error'', MStr err)]), w)
      | Inr analysis \<Rightarrow>
          (case generate_enhanced_prompt (prompts self) bug_name codebase_content analysis of
             Inl e \<Rightarrow> (('''', [(''error'', MStr (''Error generating prompt: '' @ e))]), w)
           | Inr prompt \<Rightarrow>
               if str_in ''Error:'' prompt \<or> strip prompt = []
               then (('''', [(''error'', MStr ''Invalid prompt generated'')]), w)
               else generate_fix_loop self bug_name analysis prompt 0 w))"

section \<open>The failure analyst\<close>

text \<open>Values of the dictionary returned by the failure analyst.\<close>

datatype sugg_value = SStr string | SBool bool

text \<open>Python's truth value of such a value.\<close>

fun truthy :: "sugg_value \<Rightarrow> bool" where
  "truthy (SBool b) = b"
| "truthy (SStr s) = (s \<noteq> [])"

text \<open>The body of the analyst's retry loop: any non-empty text is accepted.\<close>

definition analysis_attempt ::
  "'sa agent \<Rightarrow> string \<Rightarrow> world \<Rightarrow> (string \<times> sugg_value) list step"
where
  "analysis_attempt self prompt w =
     (case client self (api_calls w) prompt of
        ApiRaise e \<Rightarrow> Continue (sleep 1 (called w))
      | ApiResponse text \<Rightarrow>
          if text \<noteq> None \<and> text \<noteq> Some []
          then Return [(''analysis'', SStr (strip (the text))), (''success'', SBool True)] (called w)
          else Continue (sleep 1 (called w)))"

function failure_analysis_loop ::
  "'sa agent \<Rightarrow> string \<Rightarrow> int \<Rightarrow> world \<Rightarrow> (string \<times> sugg_value) list \<times> world"
where
  "failure_analysis_loop self prompt attempt w =
     (if attempt < max_retries (config self) then
        (case analysis_attempt self prompt w of
           Continue w' \<Rightarrow> failure_analysis_loop self prompt (attempt + 1) w'
         | Return r w' \<Rightarrow> (r, w'))
      else ([(''analysis'', SStr ''Failed to generate intelligent suggestions due to API error.'')], w))"
  by pat_completeness auto
termination
  by (relation "measure (\<lambda>(self, prompt, attempt, w). nat (max_retries (config self) - attempt))")
    auto

text \<open>\<^verbatim>\<open>BugFixerAgent.generate_failure_analysis_and_suggestions\<close>.\<close>

definition generate_failure_analysis_and_suggestions ::
  "'sa agent \<Rightarrow> string \<Rightarrow> string \<Rightarrow> string \<Rightarrow> string \<Rightarrow> world
     \<Rightarrow> (string \<times> sugg_value) list \<times> world"
where
  "generate_failure_analysis_and_suggestions self bug_name original_error_message
       previous_ai_generated_code codebase_content w =
     (let bug_info = get_bug_by_name (bug_defs (prompts self)) bug_name;
          files_to_check = (case bug_info of Some b \<Rightarrow> b_files b | None \<Rightarrow> []);
          relevant_context = extract_relevant_files (prompts self) codebase_content files_to_check;
          prompt = generate_failure_analysis_prompt (prompts self) bug_name original_error_message
                     previous_ai_generated_code relevant_context
      in failure_analysis_loop self prompt 0 w)"

section \<open>Processing one defect\<close>

text \<open>
  \<^verbatim>\<open>BugFixerAgent.get_fix_summary\<close>. Python leaves the order of \<^verbatim>\<open>list(set(...))\<close> open; the model
  keeps the order of last occurrences.
\<close>

record 'sa fix_summary =
  fs_bug_name :: string
  fs_description :: string
  fs_root_cause :: string
  fs_fix_summary :: string
  fs_files_affected :: "string list"
  fs_corrected_code_snippet :: string
  fs_analysis_metadata :: "'sa metadata"

definition get_fix_summary :: "string \<Rightarrow> string \<Rightarrow> 'sa metadata \<Rightarrow> 'sa fix_summary" where
  "get_fix_summary bug_name corrected_code_snippet analysis_metadata =
     (let bug_info = (case map_of analysis_metadata ''analysis'' of
                        Some (MAnalysis original_analysis_dict) \<Rightarrow> Some (a_bug_info original_analysis_dict)
                      | _ \<Rightarrow> None);
          files_affected = (case bug_info of Some b \<Rightarrow> b_files b | None \<Rightarrow> []);
          files_affected = (if files_affected = []
                            then remdups (findall_file_lines corrected_code_snippet)
                            else files_affected)
      in \<lparr>fs_bug_name = bug_name,
          fs_description = (case bug_info of Some b \<Rightarrow> b_description b | None \<Rightarrow> ''''),
          fs_root_cause = (case bug_info of Some b \<Rightarrow> b_root_cause b | None \<Rightarrow> ''''),
          fs_fix_summary = (case bug_info of Some b \<Rightarrow> b_fix_summary b
                            | None \<Rightarrow> ''Solution provided as code snippet.''),
          fs_files_affected = files_affected,
          fs_corrected_code_snippet = corrected_code_snippet,
          fs_analysis_metadata = analysis_metadata\<rparr>)"

text \<open>Exceptions that leave a function of the run controller.\<close>

datatype py_error = KeyError string | ZeroDivisionError | ValueError string

text \<open>The outcome dictionary of one defect; \<open>r_fix_summary\<close> is \<open>None\<close> while the key is absent.\<close>

record 'sa result_payload =
  r_bug_name :: string
  r_status :: string
  r_error :: string
  r_generated_code_solution :: string
  r_fix_summary :: "'sa fix_summary option"
  r_ai_suggestions :: string

text \<open>
  \<^verbatim>\<open>BugFixerRunner.process_bug\<close>. \<open>generate_fix\<close> and \<open>get_fix_summary\<close> above raise nothing, so
  the handler of the \<^verbatim>\<open>try\<close> block (status \<^verbatim>\<open>error\<close>) is never entered and has no branch here;
  \<open>generate_fix\<close> stores only texts under the key \<^verbatim>\<open>error\<close>. The failure analyst is called
  outside the \<^verbatim>\<open>try\<close> block, and so is the subscript \<^verbatim>\<open>suggestion_response["success"]\<close>,
  which raises \<^verbatim>\<open>KeyError\<close> for an absent key.
\<close>

definition process_bug ::
  "'sa agent \<Rightarrow> bug \<Rightarrow> string \<Rightarrow> world \<Rightarrow> (py_error + 'sa result_payload) \<times> world"
where
  "process_bug self bug codebase_content w =
     (let bug_name = b_name bug;
          result_payload = \<lparr>r_bug_name = bug_name, r_status = ''initial'', r_error = '''',
                             r_generated_code_solution = '''', r_fix_summary = None,
                             r_ai_suggestions = ''''\<rparr>;
          ((corrected_code_snippet, analysis_metadata), w1) =
             generate_fix self bug_name codebase_content w;
          result_payload = result_payload\<lparr>r_generated_code_solution := corrected_code_snippet\<rparr>;
          result_payload =
            (if corrected_code_snippet = [] then
               result_payload\<lparr>r_status := ''failed_to_generate_solution'',
                                r_error := (case map_of analysis_metadata ''error'' of
                                              Some (MStr e) \<Rightarrow> e
                                            | _ \<Rightarrow> ''No code solution generated.'')\<rparr>
             else
               result_payload\<lparr>r_status := ''solution_generated'',
                                r_fix_summary :=
                                  Some (get_fix_summary bug_name corrected_code_snippet
                                          analysis_metadata)\<rparr>)
      in if r_status result_payload \<noteq> ''solution_generated'' then
           (let (suggestion_response, w2) =
                  generate_failure_analysis_and_suggestions self bug_name (r_error result_payload)
                    (r_generated_code_solution result_payload) codebase_content w1
            in case map_of suggestion_response ''success'' of
                 None \<Rightarrow> (Inl (KeyError ''success''), w2)
               | Some success \<Rightarrow>
                   if truthy success then
                     (case map_of suggestion_response ''analysis'' of
                        None \<Rightarrow> (Inl (KeyError ''analysis''), w2)
                      | Some (SStr a) \<Rightarrow> (Inr (result_payload\<lparr>r_ai_suggestions := a\<rparr>), w2)
                      | Some (SBool b) \<Rightarrow>
                          (Inr (result_payload\<lparr>r_ai_suggestions := (if b then ''True'' else ''False'')\<rparr>),
                           w2))
                   else
                     (Inr (result_payload\<lparr>r_ai_suggestions :=
                             ''Could not generate intelligent suggestions due to API error.''\<rparr>), w2))
         else (Inr result_payload, w1))"

section \<open>The report\<close>

text \<open>\<^verbatim>\<open>str(n)\<close> for integers.\<close>

function str_nat :: "nat \<Rightarrow> string" where
  "str_nat n =
     (if n < 10 then [char_of (48 + n)] else str_nat (n div 10) @ [char_of (48 + n mod 10)])"
  by pat_completeness auto
termination
  by (relation "measure id") auto

definition str_int :: "int \<Rightarrow> string" where
  "str_int i = (if i < 0 then CHR ''-'' # str_nat (nat (- i)) else str_nat (nat i))"

text \<open>\<^verbatim>\<open>s.upper()\<close> on ASCII texts, which all status values are.\<close>

definition upper :: "string \<Rightarrow> string" where
  "upper s =
     map (\<lambda>c. if 97 \<le> (of_char c :: nat) \<and> (of_char c :: nat) \<le> 122
              then char_of ((of_char c :: nat) - 32) else c) s"

text \<open>
  What the run takes from its host: whether \<^verbatim>\<open>setup_environment\<close> succeeds, the content of
  the snapshot file after it (\<open>None\<close> when the file is missing or unreadable), the text of
  the clock, and the text of \<^verbatim>\<open>f"{(a/b*100):.1f}"\<close> for counts \<open>a\<close> and \<open>b \<noteq> 0\<close>
  (floating-point division and rounding are left to the host).
\<close>

record host =
  setup_ok :: bool
  codebase_file :: "string option"
  now :: string
  percent_1f :: "nat \<Rightarrow> nat \<Rightarrow> string"

text \<open>The lines that the body of the loop over the outcomes appends for outcome number \<open>i\<close>.\<close>

definition report_entry :: "nat \<Rightarrow> 'sa result_payload \<Rightarrow> string list" where
  "report_entry i result =
     [''BUG '' @ str_nat i @ '': '' @ r_bug_name result,
      ''Status: '' @ upper (r_status result),
      replicate 40 CHR ''-'']
     @ (if r_status result = ''solution_generated'' then
          [''Root Cause: '' @ (case r_fix_summary result of Some f \<Rightarrow> fs_root_cause f
                               | None \<Rightarrow> ''Not specified''),
           ''Proposed Fix Concept: '' @ (case r_fix_summary result of Some f \<Rightarrow> fs_fix_summary f
                                         | None \<Rightarrow> ''Not specified''),
           ''Files Affected: '' @ join '', '' (case r_fix_summary result of
                                                 Some f \<Rightarrow> fs_files_affected f | None \<Rightarrow> []),
           CHR 0x0A # ''--- GENERATED CODE SOLUTION ---'',
           r_generated_code_solution result,
           ''-------------------------------'']
        else
          [''Error: '' @ r_error result]
          @ (if r_generated_code_solution result \<noteq> [] then
               [CHR 0x0A # ''--- ATTEMPTED CODE SOLUTION ---'',
                r_generated_code_solution result,
                ''-------------------------------'']
             else [CHR 0x0A # ''No code solution was generated in the initial attempt.''])
          @ (if r_ai_suggestions result \<noteq> [] then
               [CHR 0x0A # ''--- AI-GENERATED FAILURE ANALYSIS AND IMPROVED SOLUTION ---'',
                r_ai_suggestions result,
                ''---------------------------------------------------------'']
             else [CHR 0x0A # ''No specific AI-generated suggestions available for this failure.'']))
     @ ['''']"

text \<open>
  \<^verbatim>\<open>BugFixerRunner.generate_report\<close>. The success rate divides by \<^verbatim>\<open>len(bug_results)\<close>; Python
  raises \<^verbatim>\<open>ZeroDivisionError\<close> when that is zero.
\<close>

definition generate_report ::
  "config \<Rightarrow> host \<Rightarrow> 'sa result_payload list \<Rightarrow> py_error + string"
where
  "generate_report cfg h bug_results =
     (let report_lines =
            [replicate 60 CHR ''='',
             ''BUG FIXER AGENT REPORT'',
             replicate 60 CHR ''='',
             ''Generated: '' @ now h,
             ''Model Used: '' @ model_name cfg,
             ''Total Bugs Processed: '' @ str_nat (length bug_results),
             ''''];
          solution_generated_count =
            length (filter (\<lambda>r. r_status r = ''solution_generated'') bug_results);
          failed_count = length bug_results - solution_generated_count;
          report_lines = report_lines @
            [''SUMMARY:'',
             ''- Solutions Successfully Generated: '' @ str_nat solution_generated_count,
             ''- Failures (No Solution/Invalid Solution): '' @ str_nat failed_count]
      in if length bug_results = 0 then Inl ZeroDivisionError
         else
           (let report_lines = report_lines @
                  [''- Success Rate (Solution Generation): ''
                     @ percent_1f h solution_generated_count (length bug_results) @ ''%'',
                   ''''];
                report_lines = report_lines @
                  concat (map (\<lambda>(i, result). report_entry i result)
                            (zip [1 ..< Suc (length bug_results)] bug_results));
                report_lines = report_lines @
                  [''TECHNICAL DETAILS:'',
                   ''- Model: '' @ model_name cfg,
                   ''- Temperature: '' @ temperature cfg,
                   ''- Max Output Tokens: '' @ str_int (max_output_tokens cfg),
                   ''- Max Retries: '' @ str_int (max_retries cfg),
                   '''',
                   ''GENERAL RECOMMENDATIONS:''];
                report_lines = report_lines @
                  (if failed_count > 0 then
                     [''- Review the '' @ [CHR 0x27]
                        @ ''AI-GENERATED FAILURE ANALYSIS AND IMPROVED SOLUTION'' @ [CHR 0x27]
                        @ '' for failed bugs.'',
                      ''- Ensure the environment is correctly set up and dependencies are met.'',
                      ''- Consult agent logs for further details on API errors.'',
                      ''- Refine bug definitions or prompt hints if solutions are consistently incorrect.'']
                   else
                     [''- All bug solutions successfully generated! Review them for accuracy.'',
                      ''- Manually apply the generated code snippets to your codebase.'',
                      ''- Thoroughly test the application after applying changes.'',
                      ''- Consider a code review for quality assurance before deploying.''])
            in Inr (join [CHR 0x0A] report_lines)))"

section \<open>The run controller\<close>

text \<open>
  The counters of \<^verbatim>\<open>self.results\<close>, the outcomes appended so far, the report file written by
  this run, and the world.
\<close>

record 'sa run_state =
  bugs_processed :: nat
  bugs_fixed :: nat
  bugs_failed :: nat
  bug_results :: "'sa result_payload list"
  report_file :: "string option"
  rw :: world

text \<open>
  The loop of \<^verbatim>\<open>run\<close> over the catalogue. An exception that leaves \<open>process_bug\<close> leaves the
  loop and \<^verbatim>\<open>run\<close>: nothing catches it.
\<close>

fun process_all ::
  "'sa agent \<Rightarrow> string \<Rightarrow> bug list \<Rightarrow> 'sa run_state \<Rightarrow> py_error option \<times> 'sa run_state"
where
  "process_all self codebase_content [] st = (None, st)"
| "process_all self codebase_content (bug # bugs_to_fix) st =
     (case process_bug self bug codebase_content (rw st) of
        (Inl e, w') \<Rightarrow> (Some e, st\<lparr>rw := w'\<rparr>)
      | (Inr result, w') \<Rightarrow>
          process_all self codebase_content bugs_to_fix
            (st\<lparr>bug_results := bug_results st @ [result],
                bugs_processed := bugs_processed st + 1,
                bugs_fixed := (if r_status result = ''solution_generated''
                               then bugs_fixed st + 1 else bugs_fixed st),
                bugs_failed := (if r_status result = ''solution_generated''
                                then bugs_failed st else bugs_failed st + 1),
                rw := w'\<rparr>))"

text \<open>\<^verbatim>\<open>BugFixerRunner\<close>: the agent, the catalogue and the host.\<close>

record 'sa runner =
  agent :: "'sa agent"
  planted_bugs :: "bug list"
  host :: host

definition initial_state :: "'sa run_state" where
  "initial_state = \<lparr>bugs_processed = 0, bugs_fixed = 0, bugs_failed = 0, bug_results = [],
                     report_file = None, rw = \<lparr>api_calls = 0, slept = 0\<rparr>\<rparr>"

text \<open>
  \<^verbatim>\<open>BugFixerRunner.run\<close>: \<open>Inr\<close> holds the returned truth value, \<open>Inl\<close> an exception that
  leaves the method. The log line after the report divides by the number of processed
  defects. Writing the report file and removing the snapshot file are taken to succeed.
\<close>

definition run :: "'sa runner \<Rightarrow> (py_error + bool) \<times> 'sa run_state" where
  "run self =
     (if \<not> setup_ok (host self) then (Inr False, initial_state)
      else
        let codebase_content = (case codebase_file (host self) of None \<Rightarrow> '''' | Some c \<Rightarrow> c) in
        if codebase_content = [] then (Inr False, initial_state)
        else
          (case process_all (agent self) codebase_content (planted_bugs self) initial_state of
             (Some e, st) \<Rightarrow> (Inl e, st)
           | (None, st) \<Rightarrow>
               (case generate_report (config (agent self)) (host self) (bug_results st) of
                  Inl e \<Rightarrow> (Inl e, st)
                | Inr report_content \<Rightarrow>
                    let st' = st\<lparr>report_file := Some report_content\<rparr> in
                    if bugs_processed st' = 0 then (Inl ZeroDivisionError, st')
                    else (Inr (bugs_failed st' = 0), st'))))"

text \<open>
  \<^verbatim>\<open>main\<close> as the exit status of the process. \<open>Inl\<close> is a constructor of the runner that
  raises (a missing API key). An exception that leaves \<^verbatim>\<open>main\<close> ends the interpreter with
  status 1.
\<close>

definition main :: "(py_error + 'sa runner) \<Rightarrow> int" where
  "main made =
     (case made of
        Inl e \<Rightarrow> 1
      | Inr runner \<Rightarrow>
          (case fst (run runner) of
             Inl e \<Rightarrow> 1
           | Inr success \<Rightarrow> if success then 0 else 1))"

section \<open>Notions used in the statements\<close>

text \<open>A text has a line that starts with \<^verbatim>\<open>File: \<close>.\<close>

definition has_file_line :: "string \<Rightarrow> bool" where
  "has_file_line s = list_ex (\<lambda>l. startswith l ''File: '') (split_lines s)"

text \<open>A reply without text: the response or its text is missing, or the text is empty.\<close>

definition empty_reply :: "api_reply \<Rightarrow> bool" where
  "empty_reply r = (r = ApiResponse None \<or> r = ApiResponse (Some []))"

text \<open>
  The \<open>n\<close>-th call does not produce a fix: it raises, returns no text, or returns a text that
  the format validator rejects after stripping.
\<close>

definition attempt_fails :: "'sa agent \<Rightarrow> string \<Rightarrow> nat \<Rightarrow> bool" where
  "attempt_fails self prompt n =
     (case client self n prompt of
        ApiRaise e \<Rightarrow> True
      | ApiResponse text \<Rightarrow>
          text = None \<or> text = Some [] \<or> \<not> fst (validate_code_snippet_format (strip (the text))))"

text \<open>The metadata of a successful call that needed \<open>n\<close> attempts.\<close>

definition fix_metadata :: "'sa agent \<Rightarrow> string \<Rightarrow> 'sa analysis \<Rightarrow> int \<Rightarrow> 'sa metadata" where
  "fix_metadata self bug_name analysis n =
     [(''bug_name'', MStr bug_name), (''analysis'', MAnalysis analysis),
      (''attempts'', MInt n), (''model_used'', MStr (model_name (config self)))]"

text \<open>The two shapes of a result of \<open>generate_fix\<close>, by the keys of the metadata.\<close>

definition failure_shape :: "string \<times> 'sa metadata \<Rightarrow> bool" where
  "failure_shape r = (fst r = [] \<and> map fst (snd r) = [''error''])"

definition success_shape :: "string \<times> 'sa metadata \<Rightarrow> bool" where
  "success_shape r =
     (fst r \<noteq> [] \<and> map fst (snd r) = [''bug_name'', ''analysis'', ''attempts'', ''model_used''])"

text \<open>A call of the failure analyst that yields nothing: it raises or returns no text.\<close>

definition analyst_call_fails :: "api_reply \<Rightarrow> bool" where
  "analyst_call_fails r =
     (case r of ApiRaise e \<Rightarrow> True | ApiResponse text \<Rightarrow> text = None \<or> text = Some [])"

section \<open>Example inputs\<close>

definition permission_bug :: bug where
  "permission_bug =
     \<lparr>b_name = ''Permission Bug'',
      b_description = ''Users can see todos from other users.'',
      b_files = [''backend/todos/views.py''],
      b_root_cause = ''The queryset is not filtered by the authenticated user.'',
      b_fix_summary = ''Filter the queryset by the user of the request.''\<rparr>"

definition csrf_bug :: bug where
  "csrf_bug =
     \<lparr>b_name = ''CSRF Token Bug'',
      b_description = ''Mutating requests fail for lack of a CSRF header.'',
      b_files = [''frontend/src/services/api.ts''],
      b_root_cause = ''The header is missing in api.ts.'',
      b_fix_summary = ''Add the header for POST, PUT and DELETE.''\<rparr>"

definition example_prompts :: "unit prompts" where
  "example_prompts =
     \<lparr>bug_defs = [permission_bug, csrf_bug],
      generate_enhanced_prompt = (\<lambda>bug_name codebase_content analysis. Inr (''Fix '' @ bug_name)),
      extract_relevant_files = (\<lambda>codebase_content files. []),
      generate_failure_analysis_prompt =
        (\<lambda>bug_name err code relevant. ''Analyse '' @ bug_name)\<rparr>"

text \<open>An API that answers every call with an empty text.\<close>

definition silent_agent :: "unit agent" where
  "silent_agent =
     \<lparr>config = Config, prompts = example_prompts,
      client = (\<lambda>n prompt. ApiResponse (Some [])), analyze_file = (\<lambda>path. Inr ())\<rparr>"

text \<open>An API whose every call raises.\<close>

definition unreachable_agent :: "unit agent" where
  "unreachable_agent =
     \<lparr>config = Config, prompts = example_prompts,
      client = (\<lambda>n prompt. ApiRaise ''503 UNAVAILABLE''), analyze_file = (\<lambda>path. Inr ())\<rparr>"

text \<open>
  An API that raises on the first call, chats on the second, and sends a patch (with a
  trailing line feed) from the third call on.
\<close>

definition patch_text :: string where
  "patch_text = ''File: backend/todos/views.py'' @ [CHR 0x0A] @ ''```python'' @ [CHR 0x0A]
     @ ''return Todo.objects.filter(user=self.request.user)'' @ [CHR 0x0A] @ ''```'' @ [CHR 0x0A]"

definition late_agent :: "unit agent" where
  "late_agent =
     \<lparr>config = Config, prompts = example_prompts,
      client = (\<lambda>n prompt. if n = 0 then ApiRaise ''timeout''
                            else if n = 1 then ApiResponse (Some ''Hello, here is your fix.'')
                            else ApiResponse (Some patch_text)),
      analyze_file = (\<lambda>path. Inr ())\<rparr>"

definition world0 :: world where
  "world0 = \<lparr>api_calls = 0, slept = 0\<rparr>"

definition example_host :: host where
  "example_host =
     \<lparr>setup_ok = True, codebase_file = Some ''snapshot'', now = ''2025-01-01 00:00:00'',
      percent_1f = (\<lambda>a b. if a = b then ''100.0'' else ''0.0'')\<rparr>"

definition failed_outcome :: "unit result_payload" where
  "failed_outcome =
     \<lparr>r_bug_name = ''Permission Bug'', r_status = ''failed_to_generate_solution'',
      r_error = ''No response from API after max retries'', r_generated_code_solution = '''',
      r_fix_summary = None, r_ai_suggestions = ''Check the API key.''\<rparr>"

text \<open>The defaults with a small token cap, which keeps the numbers printed in a report short.\<close>

definition small_config :: config where
  "small_config = Config\<lparr>max_output_tokens := 64\<rparr>"

definition late_runner :: "unit runner" where
  "late_runner =
     \<lparr>agent = late_agent\<lparr>config := small_config\<rparr>,
      planted_bugs = [permission_bug, csrf_bug], host = example_host\<rparr>"

definition unreachable_runner :: "unit runner" where
  "unreachable_runner =
     \<lparr>agent = unreachable_agent, planted_bugs = [permission_bug, csrf_bug],
      host = example_host\<rparr>"

section \<open>The snapshot and the context loader\<close>

text \<open>The constants of \<^verbatim>\<open>inspector.py\<close>.\<close>

definition HEADER_LINE :: string where
  "HEADER_LINE = replicate 100 CHR ''*''"

definition FILE_SEPARATOR :: string where
  "FILE_SEPARATOR = [CHR 0x0A, CHR 0x0A]"

text \<open>
  What \<^verbatim>\<open>process_directory\<close> writes for one file (its relative path and its content), and
  the snapshot of a sequence of files in the order of the directory walk.
\<close>

definition write_block :: "string \<times> string \<Rightarrow> string" where
  "write_block f =
     (HEADER_LINE @ [CHR 0x0A]) @ (''File: '' @ fst f @ [CHR 0x0A])
     @ (HEADER_LINE @ [CHR 0x0A, CHR 0x0A]) @ snd f @ FILE_SEPARATOR"

definition snapshot_of :: "(string \<times> string) list \<Rightarrow> string" where
  "snapshot_of files = concat (map write_block files)"

text \<open>
  Modelled from the spec: \<^verbatim>\<open>Prompts._extract_relevant_files\<close>, whose module \<^verbatim>\<open>prompts.py\<close> is not
  among the sources. The spec (4.1): for each requested path found in the snapshot, its
  header triple (header line, \<^verbatim>\<open>File: <path>\<close> line, header line), concatenated in snapshot
  order; paths not present are skipped. The lines of the snapshot are scanned from the top;
  a header triple is three consecutive lines of that form.
\<close>

fun extract_lines :: "string list \<Rightarrow> string list \<Rightarrow> string list" where
  "extract_lines paths (a # b # c # rest) =
     (if a = HEADER_LINE \<and> startswith b ''File: '' \<and> c = HEADER_LINE
      then (if drop 6 b \<in> set paths then [a, b, c] else []) @ extract_lines paths rest
      else extract_lines paths (b # c # rest))"
| "extract_lines paths ls = []"

text \<open>
  Modelled from the spec: the text returned by \<^verbatim>\<open>Prompts._extract_relevant_files\<close>, every
  extracted line followed by a line feed.
\<close>

definition extract_relevant_files_spec :: "string \<Rightarrow> string list \<Rightarrow> string" where
  "extract_relevant_files_spec snapshot paths =
     concat (map (\<lambda>l. l @ [CHR 0x0A]) (extract_lines paths (split_lines snapshot)))"

text \<open>The paths of the header triples among the lines of a snapshot, from top to bottom.\<close>

fun snapshot_paths :: "string list \<Rightarrow> string list" where
  "snapshot_paths (a # b # c # rest) =
     (if a = HEADER_LINE \<and> startswith b ''File: '' \<and> c = HEADER_LINE
      then drop 6 b # snapshot_paths rest
      else snapshot_paths (b # c # rest))"
| "snapshot_paths ls = []"

text \<open>The header triple of a path, as text.\<close>

definition header_triple :: "string \<Rightarrow> string" where
  "header_triple p =
     HEADER_LINE @ [CHR 0x0A] @ ''File: '' @ p @ [CHR 0x0A] @ HEADER_LINE @ [CHR 0x0A]"

section \<open>The prompt builder\<close>

text \<open>
  The placeholders of the fix prompt and the template as a sequence of fixed texts and
  placeholders. The fixed texts and the placeholders are those of the template quoted in
  \<^verbatim>\<open>tests/bug_fixer_agent/test_agent_core.py\<close>, with the doubled braces of a format string
  read as single ones.
\<close>

datatype placeholder =
  PBugName | PDescription | PRootCause | PFixConcept | PAffectedFiles | PAnalysisHints
| PRelevantContent

datatype segment = Lit string | Hole placeholder

definition fix_prompt_intro :: string where
  "fix_prompt_intro =
     join [CHR 0x0A]
       [''Provide **ONLY the corrected code snippet(s)** to fix a specific bug in this Django/React application.'',
        ''**Your primary goal is minimality and precision.** Do NOT rewrite entire functions/components, change unrelated lines, or alter API/function signatures unless explicitly necessary for the bug and justified by the analysis.'',
        ''Add functions or variables only when strictly necessary and locally scoped to the fix. **DO NOT remove or modify any code not directly related to fixing this specific bug.**'',
        '''',
        ''**BUG NAME:** '']"

definition label_description :: string where
  "label_description =
     join [CHR 0x0A]
       ['''',
        ''**DESCRIPTION:** '']"

definition label_root_cause :: string where
  "label_root_cause =
     join [CHR 0x0A]
       ['''',
        ''**ROOT CAUSE:** '']"

definition label_fix_concept :: string where
  "label_fix_concept =
     join [CHR 0x0A]
       ['''',
        ''**FIX CONCEPT:** '']"

definition label_affected_files :: string where
  "label_affected_files =
     join [CHR 0x0A]
       ['''',
        ''**AFFECTED FILES:** '']"

definition label_analysis_hints :: string where
  "label_analysis_hints =
     join [CHR 0x0A]
       ['''',
        '''',
        ''**ANALYSIS HINTS (Specific guidance on what and what NOT to change):**'',
        '''']"

definition label_code_context :: string where
  "label_code_context =
     join [CHR 0x0A]
       ['''',
        '''',
        ''**CODE CONTEXT (original, buggy files for reference):**'',
        '''']"

definition fix_prompt_output_rules :: string where
  "fix_prompt_output_rules =
     join [CHR 0x0A]
       ['''',
        '''',
        ''**STRICT OUTPUT FORMAT (CRITICAL TO FOLLOW):**'',
        ''- Output ONLY corrected code snippets.'',
        ''- For each affected file, start with: `File: <file_path>`'',
        ''- Immediately follow with a markdown code block (e.g., ```python or ```typescript).'',
        ''- Inside the code block:'',
        ''    - Include only the **minimal set of lines that are changed, added, or deleted**.'',
        ''    - Provide **exactly 1 to 3 lines of *unchanged* surrounding context** (before and after your change) to show precisely where the modification fits.'',
        ''    - **DO NOT rewrite entire functions, methods, or components.**'',
        ''    - **DO NOT change function/method signatures** (e.g., parameter names, types, or number of arguments) unless the bug is *specifically* about an incorrect signature for that function.'',
        ''    - **DO NOT remove or modify any code not directly related to fixing this specific bug.** Preserve all unrelated lines and functionality.'',
        (''    - Ensure all generated code is syntac'' @ ''tically correct and directly solves the bug.''),
        (''- Close each code block with '' @ [CHR 0x27] @ ''```'' @ [CHR 0x27] @ ''.''),
        ''- **DO NOT include diff markers** (`--- a/`, `+++ b/`, `@@`).'',
        ''- **DO NOT provide ANY explanations, conversational text, or content outside these formatted code blocks.**'',
        (''- Use separate '' @ [CHR 0x27] @ ''File:'' @ [CHR 0x27] @ '' blocks for multiple files if applicable.''),
        '''',
        ''**OUTPUT EXAMPLE (Minimal, targeted change):**'',
        ''File: frontend/src/components/SomeComponent.tsx'',
        ''```typescript'',
        ''  // 1-3 lines of original context above the change'',
        (''  const existingLine = '' @ [CHR 0x27] @ ''value'' @ [CHR 0x27] @ ''; // Line immediately preceding the change''),
        ''  const [data, setData] = useState<DataType>([]); // THIS IS YOUR MODIFIED/ADDED LINE'',
        ''  // 1-3 lines of original context below the change'',
        ''  function anotherFunction() { /* ... */ }'',
        ''```'',
        '''',
        ''File: backend/some_app/views.py'',
        ''```python'',
        ''# 1-3 lines of original context above the change'',
        ''class SomeView(APIView):'',
        ''    def get(self, request):'',
        ''        return MyModel.objects.filter(user=request.user) # THIS IS YOUR MODIFIED LINE'',
        ''# 1-3 lines of original context below the change'',
        ''```'',
        '''']"

text \<open>
  Modelled from the spec: the template of \<^verbatim>\<open>Prompts.generate_enhanced_prompt\<close>, whose module
  \<^verbatim>\<open>prompts.py\<close> is not among the sources. The spec (4.2): the prompt contains the defect's
  name, description, root cause, fix summary, comma-joined affected-file list, the
  defect-specific guidance text and the relevant excerpts.
\<close>

definition prompt_template :: "segment list" where
  "prompt_template =
     [Lit fix_prompt_intro, Hole PBugName,
      Lit label_description, Hole PDescription,
      Lit label_root_cause, Hole PRootCause,
      Lit label_fix_concept, Hole PFixConcept,
      Lit label_affected_files, Hole PAffectedFiles,
      Lit label_analysis_hints, Hole PAnalysisHints,
      Lit label_code_context, Hole PRelevantContent,
      Lit fix_prompt_output_rules]"

text \<open>The placeholder tokens as they stand in the unsubstituted template.\<close>

fun token :: "placeholder \<Rightarrow> string" where
  "token PBugName = ''{bug_name}''"
| "token PDescription = ''{description}''"
| "token PRootCause = ''{root_cause}''"
| "token PFixConcept = ''{fix_concept}''"
| "token PAffectedFiles = ''{'' @ [CHR 0x27] @ '', '' @ [CHR 0x27] @ ''.join(files_to_check)}''"
| "token PAnalysisHints = ''{self.get_specific_analysis_prompt(bug_name)}''"
| "token PRelevantContent = ''{relevant_content}''"

text \<open>
  Modelled from the spec: full variable substitution, every placeholder replaced by its
  value.
\<close>

fun substitute :: "(placeholder \<Rightarrow> string) \<Rightarrow> segment list \<Rightarrow> string" where
  "substitute env [] = []"
| "substitute env (Lit s # segments) = s @ substitute env segments"
| "substitute env (Hole h # segments) = env h @ substitute env segments"

text \<open>Modelled from the spec: the value of each placeholder for a defect.\<close>

fun fix_prompt_values :: "bug \<Rightarrow> string \<Rightarrow> string \<Rightarrow> placeholder \<Rightarrow> string" where
  "fix_prompt_values defect hints relevant_content PBugName = b_name defect"
| "fix_prompt_values defect hints relevant_content PDescription = b_description defect"
| "fix_prompt_values defect hints relevant_content PRootCause = b_root_cause defect"
| "fix_prompt_values defect hints relevant_content PFixConcept = b_fix_summary defect"
| "fix_prompt_values defect hints relevant_content PAffectedFiles = join '', '' (b_files defect)"
| "fix_prompt_values defect hints relevant_content PAnalysisHints = hints"
| "fix_prompt_values defect hints relevant_content PRelevantContent = relevant_content"

text \<open>
  Modelled from the spec: \<^verbatim>\<open>build_fix_prompt\<close> (in the repository
  \<^verbatim>\<open>Prompts.generate_enhanced_prompt\<close>, not among the sources), for a defect, its guidance
  text and the relevant excerpts.
\<close>

definition build_fix_prompt :: "bug \<Rightarrow> string \<Rightarrow> string \<Rightarrow> string" where
  "build_fix_prompt defect hints relevant_content =
     substitute (fix_prompt_values defect hints relevant_content) prompt_template"

text \<open>
  In a text that is \<open>brace_ok\<close> every opening brace is followed by a space, so that no
  placeholder token begins in it.
\<close>

fun brace_ok :: "string \<Rightarrow> bool" where
  "brace_ok [] = True"
| "brace_ok [c] = (c \<noteq> CHR ''{'')"
| "brace_ok (c # d # s) = ((c = CHR ''{'' \<longrightarrow> d = CHR '' '') \<and> brace_ok (d # s))"

text \<open>Files and requested paths in the shape of the repository's test for the extraction.\<close>

definition example_files :: "(string \<times> string) list" where
  "example_files =
     [(''frontend/src/components/TestFile.tsx'',
       ''import React from react;'' @ [CHR 0x0A] @ ''function TestComponent() {}'' @ [CHR 0x0A]),
      (''backend/models/AnotherFile.py'', ''from django.db import models'' @ [CHR 0x0A]),
      (''irrelevant/file.txt'', ''Some irrelevant content.'')]"

definition example_paths :: "string list" where
  "example_paths =
     [''backend/models/AnotherFile.py'', ''frontend/src/components/TestFile.tsx'',
      ''missing.py'']"

section \<open>The format validator's truth table\<close>

declare generate_fix_loop.simps [simp del]
declare failure_analysis_loop.simps [simp del]

lemma search_file_line_nonspace:
  "search_file_line bol s \<Longrightarrow> \<exists>c \<in> set s. \<not> isspace c"
  by (induction bol s rule: search_file_line.induct)
     (auto simp: startswith_def isspace_def)

lemma strip_eq_Nil_iff: "strip s = [] \<longleftrightarrow> (\<forall>c \<in> set s. isspace c)"
proof
  assume "strip s = []"
  then have "dropWhile isspace (rev (dropWhile isspace s)) = []" by (simp add: strip_def)
  then have "\<forall>c \<in> set (dropWhile isspace s). isspace c"
    by (simp add: dropWhile_eq_Nil_conv)
  moreover have "\<forall>c \<in> set (takeWhile isspace s). isspace c"
    by (meson set_takeWhileD)
  ultimately show "\<forall>c \<in> set s. isspace c"
    by (metis Un_iff set_append takeWhile_dropWhile_id)
next
  assume "\<forall>c \<in> set s. isspace c"
  then show "strip s = []" by (auto simp: strip_def dest: set_dropWhileD)
qed

lemma search_file_line_strip: "search_file_line bol s \<Longrightarrow> strip s \<noteq> []"
  using search_file_line_nonspace strip_eq_Nil_iff by blast

lemma strip_Nil [simp]: "strip [] = []"
  by (simp add: strip_def)

lemma validate_nonempty: "fst (validate_code_snippet_format s) \<Longrightarrow> s \<noteq> []"
  by (auto simp: validate_code_snippet_format_def split: if_splits)

lemma split_lines_nonempty [simp]: "split_lines s \<noteq> []"
  by (induction s) (auto split: list.splits)

lemma hd_split_lines: "hd (split_lines s) = takeWhile (\<lambda>c. c \<noteq> CHR 0x0A) s"
  by (induction s) (auto split: list.splits)

lemma startswith_first_line:
  "CHR 0x0A \<notin> set p \<Longrightarrow>
     startswith (takeWhile (\<lambda>c. c \<noteq> CHR 0x0A) s) p = startswith s p"
  unfolding startswith_def
proof (induction p arbitrary: s)
  case Nil
  then show ?case by simp
next
  case (Cons a p)
  then show ?case by (cases s) auto
qed

text \<open>
  The search with the anchored pattern succeeds exactly on the texts that have a line
  starting with \<^verbatim>\<open>File: \<close>.
\<close>

lemma search_file_line_lines:
  "search_file_line bol s =
     ((bol \<and> startswith (hd (split_lines s)) ''File: '') \<or>
      list_ex (\<lambda>l. startswith l ''File: '') (tl (split_lines s)))"
proof (induction s arbitrary: bol)
  case Nil
  then show ?case by (simp add: startswith_def)
next
  case (Cons c cs)
  have nl: "CHR 0x0A \<notin> set ''File: ''"
    by simp
  obtain l ls where sp: "split_lines cs = l # ls"
    by (cases "split_lines cs") auto
  show ?case
  proof (cases "c = CHR 0x0A")
    case True
    then show ?thesis
      using Cons [of True] sp by (auto simp: startswith_def)
  next
    case False
    have "startswith (c # cs) ''File: '' = startswith (hd (split_lines (c # cs))) ''File: ''"
      unfolding hd_split_lines by (rule startswith_first_line [OF nl, symmetric])
    then show ?thesis
      using Cons [of False] sp False by auto
  qed
qed

lemma search_file_line_iff: "search_file_line True s = has_file_line s"
  unfolding has_file_line_def search_file_line_lines [of True s]
  by (cases "split_lines s") auto

text \<open>
  C6. The validator returns false on an empty or whitespace-only text and on a text without
  a line that starts with \<^verbatim>\<open>File: \<close>. On a text with such a line it returns true: with fewer
  than two fences (in particular with none) it logs one warning and still returns true,
  with two fences or more it returns true without a warning.
\<close>

theorem validator_truth_table:
  "(strip s = [] \<longrightarrow> fst (validate_code_snippet_format s) = False) \<and>
   (\<not> has_file_line s \<longrightarrow> fst (validate_code_snippet_format s) = False) \<and>
   (has_file_line s \<and> count_fences s < 2 \<longrightarrow>
      validate_code_snippet_format s =
        (True, [''Generated code snippet might be missing markdown code block fences.''])) \<and>
   (has_file_line s \<and> count_fences s \<ge> 2 \<longrightarrow>
      validate_code_snippet_format s = (True, []))"
  using search_file_line_strip [of True s] search_file_line_iff [of s]
  by (auto simp: validate_code_snippet_format_def)

theorem validator_truth_table_witness:
  "strip [CHR 0x20, CHR 0x0A] = [] \<and>
   fst (validate_code_snippet_format [CHR 0x20, CHR 0x0A]) = False \<and>
   \<not> has_file_line ''Hello, here is your fix.'' \<and>
   fst (validate_code_snippet_format ''Hello, here is your fix.'') = False \<and>
   has_file_line (CHR 0x0A # ''File: frontend/src/components/TodoList.tsx'') \<and>
   count_fences (CHR 0x0A # ''File: frontend/src/components/TodoList.tsx'') = 0 \<and>
   validate_code_snippet_format (CHR 0x0A # ''File: frontend/src/components/TodoList.tsx'') =
     (True, [''Generated code snippet might be missing markdown code block fences.'']) \<and>
   has_file_line patch_text \<and> count_fences patch_text \<ge> 2 \<and>
   validate_code_snippet_format patch_text = (True, [])"
proof -
  have a: "strip [CHR 0x20, CHR 0x0A] = []" by code_simp
  have b: "\<not> has_file_line ''Hello, here is your fix.''" by code_simp
  have c: "has_file_line (CHR 0x0A # ''File: frontend/src/components/TodoList.tsx'')"
    by code_simp
  have d: "count_fences (CHR 0x0A # ''File: frontend/src/components/TodoList.tsx'') = 0"
    by code_simp
  have e: "has_file_line patch_text" by code_simp
  have f: "count_fences patch_text \<ge> 2" by code_simp
  show ?thesis
    using a b c d e f
      validator_truth_table [of "[CHR 0x20, CHR 0x0A]"]
      validator_truth_table [of "''Hello, here is your fix.''"]
      validator_truth_table [of "CHR 0x0A # ''File: frontend/src/components/TodoList.tsx''"]
      validator_truth_table [of patch_text]
    by simp
qed

section \<open>The retry loop of the fix generator\<close>

lemma api_calls_called [simp]: "api_calls (called w) = Suc (api_calls w)"
  by (simp add: called_def)

lemma api_calls_sleep [simp]: "api_calls (sleep n w) = api_calls w"
  by (simp add: sleep_def)

lemma fix_attempt_empty:
  assumes "empty_reply (client self (api_calls w) prompt)"
  shows "fix_attempt self bug_name analysis prompt attempt w =
           (if attempt = max_retries (config self) - 1
            then Return ('''', [(''error'', MStr ''No response from API after max retries'')])
                   (called w)
            else Continue (sleep 2 (called w)))"
  using assms by (auto simp: fix_attempt_def empty_reply_def)

lemma generate_fix_loop_empty:
  assumes "\<forall>n. empty_reply (client self n prompt)"
    and "attempt \<le> max_retries (config self)"
  shows "failure_shape (fst (generate_fix_loop self bug_name analysis prompt attempt w)) \<and>
         api_calls (snd (generate_fix_loop self bug_name analysis prompt attempt w)) =
           api_calls w + nat (max_retries (config self) - attempt)"
  using assms
proof (induction self bug_name analysis prompt attempt w rule: generate_fix_loop.induct)
  case (1 self bug_name analysis prompt attempt w)
  show ?case
  proof (cases "attempt < max_retries (config self)")
    case False
    then show ?thesis
      using "1.prems" by (simp add: generate_fix_loop.simps failure_shape_def)
  next
    case True
    have e: "empty_reply (client self (api_calls w) prompt)"
      using "1.prems" by simp
    show ?thesis
    proof (cases "attempt = max_retries (config self) - 1")
      case last: True
      then show ?thesis
        using True
        by (subst (1 2) generate_fix_loop.simps)
           (simp add: fix_attempt_empty [OF e] failure_shape_def)
    next
      case notlast: False
      have step: "fix_attempt self bug_name analysis prompt attempt w =
                    Continue (sleep 2 (called w))"
        using notlast by (simp add: fix_attempt_empty [OF e])
      have le: "attempt + 1 \<le> max_retries (config self)"
        using True by simp
      note IH = "1.IH" [OF True step "1.prems"(1) le]
      have unf: "generate_fix_loop self bug_name analysis prompt attempt w =
                 generate_fix_loop self bug_name analysis prompt (attempt + 1)
                   (sleep 2 (called w))"
        using True step by (subst generate_fix_loop.simps) simp
      show ?thesis
        unfolding unf using IH True by (simp add: nat_diff_distrib')
    qed
  qed
qed

text \<open>
  C4. For a defect of the catalogue whose prompt is accepted, if every call of the API
  returns no text, \<open>generate_fix\<close> returns the empty code with a metadata dictionary whose
  only key is \<^verbatim>\<open>error\<close>, and it has made exactly \<open>max_retries\<close> calls (the retry count is not
  negative; the configuration sets it to 5).
\<close>

theorem generate_fix_retry_bound:
  assumes "analyze_bug self bug_name codebase_content = Inr analysis"
    and "generate_enhanced_prompt (prompts self) bug_name codebase_content analysis = Inr prompt"
    and "\<not> str_in ''Error:'' prompt" and "strip prompt \<noteq> []"
    and "\<forall>n. empty_reply (client self n prompt)"
    and "0 \<le> max_retries (config self)"
  shows "failure_shape (fst (generate_fix self bug_name codebase_content w)) \<and>
         int (api_calls (snd (generate_fix self bug_name codebase_content w))) =
           int (api_calls w) + max_retries (config self)"
proof -
  have "generate_fix self bug_name codebase_content w =
        generate_fix_loop self bug_name analysis prompt 0 w"
    using assms(1-4) by (simp add: generate_fix_def)
  then show ?thesis
    using generate_fix_loop_empty [OF assms(5), of 0 bug_name analysis w] assms(6) by simp
qed

theorem generate_fix_retry_bound_witness:
  "max_retries (config silent_agent) = 5 \<and>
   (\<forall>n. empty_reply (client silent_agent n ''Fix Permission Bug'')) \<and>
   failure_shape (fst (generate_fix silent_agent ''Permission Bug'' ''snapshot'' world0)) \<and>
   api_calls (snd (generate_fix silent_agent ''Permission Bug'' ''snapshot'' world0)) = 5"
proof -
  obtain analysis where a: "analyze_bug silent_agent ''Permission Bug'' ''snapshot'' = Inr analysis"
    by (simp add: analyze_bug_def silent_agent_def example_prompts_def permission_bug_def)
  have p: "generate_enhanced_prompt (prompts silent_agent) ''Permission Bug'' ''snapshot'' analysis =
             Inr ''Fix Permission Bug''"
    by (simp add: silent_agent_def example_prompts_def)
  have q: "\<not> str_in ''Error:'' ''Fix Permission Bug''" by code_simp
  have r: "strip ''Fix Permission Bug'' \<noteq> []" by code_simp
  have e: "\<forall>n. empty_reply (client silent_agent n ''Fix Permission Bug'')"
    by (simp add: silent_agent_def empty_reply_def)
  have m: "max_retries (config silent_agent) = 5"
    by (simp add: silent_agent_def Config_def)
  show ?thesis
    using generate_fix_retry_bound [OF a p q r e, of world0] e m by (simp add: world0_def)
qed

lemma fix_attempt_fails:
  assumes "attempt_fails self prompt (api_calls w)"
    and "attempt < max_retries (config self) - 1"
  shows "fix_attempt self bug_name analysis prompt attempt w = Continue (sleep 2 (called w))"
  using assms
  by (auto simp: fix_attempt_def attempt_fails_def Let_def split: api_reply.splits)

lemma fix_attempt_valid:
  assumes "client self (api_calls w) prompt = ApiResponse (Some t)" and "t \<noteq> []"
    and "fst (validate_code_snippet_format (strip t))"
  shows "fix_attempt self bug_name analysis prompt attempt w =
           Return (strip t, fix_metadata self bug_name analysis (attempt + 1)) (called w)"
  using assms by (simp add: fix_attempt_def fix_metadata_def)

lemma generate_fix_loop_first_success:
  assumes "\<forall>j<k. attempt_fails self prompt (api_calls w + j)"
    and "client self (api_calls w + k) prompt = ApiResponse (Some t)" and "t \<noteq> []"
    and "fst (validate_code_snippet_format (strip t))"
    and "a + int k < max_retries (config self)"
  shows "generate_fix_loop self bug_name analysis prompt a w =
           ((strip t, fix_metadata self bug_name analysis (a + int k + 1)),
            w\<lparr>api_calls := api_calls w + k + 1, slept := slept w + 2 * k\<rparr>)"
  using assms
proof (induction k arbitrary: a w)
  case 0
  then have "fix_attempt self bug_name analysis prompt a w =
               Return (strip t, fix_metadata self bug_name analysis (a + 1)) (called w)"
    by (simp add: fix_attempt_valid)
  then show ?case
    using 0 by (subst generate_fix_loop.simps) (simp add: called_def)
next
  case (Suc k)
  have "attempt_fails self prompt (api_calls w)"
    using Suc.prems(1) by force
  moreover have "a < max_retries (config self) - 1"
    using Suc.prems(5) by simp
  ultimately have step:
    "fix_attempt self bug_name analysis prompt a w = Continue (sleep 2 (called w))"
    by (rule fix_attempt_fails)
  let ?w = "sleep 2 (called w)"
  have f: "\<forall>j<k. attempt_fails self prompt (api_calls ?w + j)"
    using Suc.prems(1) by (auto dest: spec [where x = "Suc _"])
  have c: "client self (api_calls ?w + k) prompt = ApiResponse (Some t)"
    using Suc.prems(2) by simp
  have b: "(a + 1) + int k < max_retries (config self)"
    using Suc.prems(5) by simp
  note IH = Suc.IH [OF f c Suc.prems(3) Suc.prems(4) b]
  have "a < max_retries (config self)"
    using Suc.prems(5) by simp
  then have "generate_fix_loop self bug_name analysis prompt a w =
             generate_fix_loop self bug_name analysis prompt (a + 1) ?w"
    using step by (subst generate_fix_loop.simps) simp
  then show ?case
    using IH by (simp add: called_def sleep_def algebra_simps)
qed

text \<open>Stripping changes nothing in a text that neither begins nor ends with whitespace.\<close>

lemma strip_unchanged:
  assumes "s \<noteq> []" and "\<not> isspace (hd s)" and "\<not> isspace (last s)"
  shows "strip s = s"
proof -
  have "dropWhile isspace s = s"
    using assms(2) by (simp add: dropWhile_eq_self_iff)
  moreover have "dropWhile isspace (rev s) = rev s"
    using assms(1,3) by (simp add: dropWhile_eq_self_iff hd_rev)
  ultimately show ?thesis
    by (simp add: strip_def)
qed

text \<open>
  C5. For a defect of the catalogue whose prompt is accepted: if the first \<open>k\<close> calls fail
  and the next one, the attempt with loop index \<open>k < max_retries\<close>, returns a non-empty text
  whose stripped form passes the validator, then \<open>generate_fix\<close> returns that stripped text
  with the metadata (defect name, analysis, attempt count \<open>k + 1\<close>, model identifier), after
  exactly \<open>k + 1\<close> calls: no further attempt is made.
\<close>

theorem generate_fix_early_success:
  assumes "analyze_bug self bug_name codebase_content = Inr analysis"
    and "generate_enhanced_prompt (prompts self) bug_name codebase_content analysis = Inr prompt"
    and "\<not> str_in ''Error:'' prompt" and "strip prompt \<noteq> []"
    and "\<forall>j<k. attempt_fails self prompt (api_calls w + j)"
    and "client self (api_calls w + k) prompt = ApiResponse (Some t)" and "t \<noteq> []"
    and "fst (validate_code_snippet_format (strip t))"
    and "int k < max_retries (config self)"
  shows "generate_fix self bug_name codebase_content w =
           ((strip t, fix_metadata self bug_name analysis (int k + 1)),
            w\<lparr>api_calls := api_calls w + k + 1, slept := slept w + 2 * k\<rparr>)"
proof -
  have "generate_fix self bug_name codebase_content w =
        generate_fix_loop self bug_name analysis prompt 0 w"
    using assms(1-4) by (simp add: generate_fix_def)
  then show ?thesis
    using generate_fix_loop_first_success [OF assms(5-8), of 0 bug_name analysis] assms(9)
    by simp
qed

theorem generate_fix_early_success_witness:
  "attempt_fails late_agent ''Fix Permission Bug'' 0 \<and>
   attempt_fails late_agent ''Fix Permission Bug'' 1 \<and>
   client late_agent 2 ''Fix Permission Bug'' = ApiResponse (Some patch_text) \<and>
   fst (validate_code_snippet_format (strip patch_text)) \<and>
   fst (fst (generate_fix late_agent ''Permission Bug'' ''snapshot'' world0)) = strip patch_text \<and>
   map_of (snd (fst (generate_fix late_agent ''Permission Bug'' ''snapshot'' world0))) ''attempts'' =
     Some (MInt 3) \<and>
   snd (generate_fix late_agent ''Permission Bug'' ''snapshot'' world0) =
     \<lparr>api_calls = 3, slept = 4\<rparr>"
proof -
  obtain analysis where a: "analyze_bug late_agent ''Permission Bug'' ''snapshot'' = Inr analysis"
    by (simp add: analyze_bug_def late_agent_def example_prompts_def permission_bug_def)
  have p: "generate_enhanced_prompt (prompts late_agent) ''Permission Bug'' ''snapshot'' analysis =
             Inr ''Fix Permission Bug''"
    by (simp add: late_agent_def example_prompts_def)
  have q: "\<not> str_in ''Error:'' ''Fix Permission Bug''" by code_simp
  have r: "strip ''Fix Permission Bug'' \<noteq> []" by code_simp
  have f0: "attempt_fails late_agent ''Fix Permission Bug'' 0" by code_simp
  have f1: "attempt_fails late_agent ''Fix Permission Bug'' 1" by code_simp
  have f: "\<forall>j<2. attempt_fails late_agent ''Fix Permission Bug'' (api_calls world0 + j)"
    using f0 f1 by (auto simp: world0_def less_2_cases_iff)
  have c: "client late_agent (api_calls world0 + 2) ''Fix Permission Bug'' =
             ApiResponse (Some patch_text)"
    by (simp add: late_agent_def world0_def)
  have c2: "client late_agent 2 ''Fix Permission Bug'' = ApiResponse (Some patch_text)"
    by (simp add: late_agent_def)
  have n: "patch_text \<noteq> []" by code_simp
  have v: "fst (validate_code_snippet_format (strip patch_text))" by code_simp
  have m: "int 2 < max_retries (config late_agent)"
    by (simp add: late_agent_def Config_def)
  show ?thesis
    using generate_fix_early_success [OF a p q r f c n v m] f0 f1 c2 v
    by (simp add: world0_def fix_metadata_def)
qed

section \<open>The two shapes of a result\<close>

lemma fix_attempt_shape:
  "fix_attempt self bug_name analysis prompt attempt w = Return r w' \<Longrightarrow>
     failure_shape r \<or> success_shape r"
  by (auto simp: fix_attempt_def Let_def validate_nonempty failure_shape_def success_shape_def
           split: api_reply.splits if_splits)

lemma generate_fix_loop_shape:
  "failure_shape (fst (generate_fix_loop self bug_name analysis prompt attempt w)) \<or>
   success_shape (fst (generate_fix_loop self bug_name analysis prompt attempt w))"
proof (induction self bug_name analysis prompt attempt w rule: generate_fix_loop.induct)
  case (1 self bug_name analysis prompt attempt w)
  show ?case
  proof (cases "attempt < max_retries (config self)")
    case False
    then show ?thesis
      by (simp add: generate_fix_loop.simps failure_shape_def)
  next
    case True
    show ?thesis
    proof (cases "fix_attempt self bug_name analysis prompt attempt w")
      case (Continue w')
      then have "generate_fix_loop self bug_name analysis prompt attempt w =
                 generate_fix_loop self bug_name analysis prompt (attempt + 1) w'"
        using True by (subst generate_fix_loop.simps) simp
      then show ?thesis
        using "1.IH" [OF True Continue] by simp
    next
      case (Return r w')
      then have "generate_fix_loop self bug_name analysis prompt attempt w = (r, w')"
        using True by (subst generate_fix_loop.simps) simp
      then show ?thesis
        using fix_attempt_shape [OF Return] by simp
    qed
  qed
qed

lemma generate_fix_shape:
  "failure_shape (fst (generate_fix self bug_name codebase_content w)) \<or>
   success_shape (fst (generate_fix self bug_name codebase_content w))"
proof (cases "analyze_bug self bug_name codebase_content")
  case (Inl err)
  then show ?thesis
    by (simp add: generate_fix_def failure_shape_def)
next
  case (Inr analysis)
  note a = this
  show ?thesis
  proof (cases "generate_enhanced_prompt (prompts self) bug_name codebase_content analysis")
    case (Inl e)
    then show ?thesis
      using a by (simp add: generate_fix_def failure_shape_def)
  next
    case (Inr prompt)
    show ?thesis
    proof (cases "str_in ''Error:'' prompt \<or> strip prompt = []")
      case True
      then show ?thesis
        using Inr a by (auto simp: generate_fix_def failure_shape_def)
    next
      case False
      then have "generate_fix self bug_name codebase_content w =
                 generate_fix_loop self bug_name analysis prompt 0 w"
        using Inr a by (simp add: generate_fix_def)
      then show ?thesis
        using generate_fix_loop_shape by metis
    qed
  qed
qed

lemma process_bug_status:
  assumes "fst (process_bug self bug codebase_content w) = Inr payload"
  shows "(r_status payload = ''solution_generated'') =
         (fst (fst (generate_fix self (b_name bug) codebase_content w)) \<noteq> [])"
  using assms
  by (auto simp: process_bug_def Let_def
           split: prod.splits option.splits sugg_value.splits if_splits)

lemma process_bug_name:
  assumes "fst (process_bug self bug codebase_content w) = Inr payload"
  shows "r_bug_name payload = b_name bug"
  using assms
  by (auto simp: process_bug_def Let_def
           split: prod.splits option.splits sugg_value.splits if_splits)

text \<open>
  C10. Every call of \<open>generate_fix\<close> returns exactly one of two shapes: the empty code with a
  metadata dictionary whose only key is \<^verbatim>\<open>error\<close>, or a non-empty code with a metadata
  dictionary whose keys are \<^verbatim>\<open>bug_name\<close>, \<^verbatim>\<open>analysis\<close>, \<^verbatim>\<open>attempts\<close> and \<^verbatim>\<open>model_used\<close>. An outcome
  that \<open>process_bug\<close> returns has the status \<^verbatim>\<open>solution_generated\<close> exactly when the code
  returned by \<open>generate_fix\<close> for that defect is not empty.
\<close>

theorem generate_fix_result_shapes:
  "(failure_shape (fst (generate_fix self bug_name codebase_content w)) \<or>
    success_shape (fst (generate_fix self bug_name codebase_content w))) \<and>
   \<not> (failure_shape (fst (generate_fix self bug_name codebase_content w)) \<and>
      success_shape (fst (generate_fix self bug_name codebase_content w))) \<and>
   (fst (process_bug self bug codebase_content w) = Inr payload \<longrightarrow>
      (r_status payload = ''solution_generated'') =
      (fst (fst (generate_fix self (b_name bug) codebase_content w)) \<noteq> []))"
  using generate_fix_shape [of self bug_name codebase_content w]
    process_bug_status [of self bug codebase_content w payload]
  by (auto simp: failure_shape_def success_shape_def)

theorem generate_fix_result_shapes_witness:
  "map_sum id r_status (fst (process_bug late_agent permission_bug ''snapshot'' world0)) =
     Inr ''solution_generated'' \<and>
   fst (fst (generate_fix late_agent ''Permission Bug'' ''snapshot'' world0)) \<noteq> [] \<and>
   success_shape (fst (generate_fix late_agent ''Permission Bug'' ''snapshot'' world0)) \<and>
   \<not> failure_shape (fst (generate_fix late_agent ''Permission Bug'' ''snapshot'' world0))"
proof -
  have s: "map_sum id r_status (fst (process_bug late_agent permission_bug ''snapshot'' world0)) =
             Inr ''solution_generated''"
    by code_simp
  then obtain payload where
    p: "fst (process_bug late_agent permission_bug ''snapshot'' world0) = Inr payload"
    and st: "r_status payload = ''solution_generated''"
    by (cases "fst (process_bug late_agent permission_bug ''snapshot'' world0)") auto
  have n: "b_name permission_bug = ''Permission Bug''"
    by (simp add: permission_bug_def)
  have ok: "success_shape (fst (generate_fix late_agent ''Permission Bug'' ''snapshot'' world0))"
    by code_simp
  show ?thesis
    using generate_fix_result_shapes
            [of late_agent "''Permission Bug''" "''snapshot''" world0 permission_bug payload]
          s p st n ok
    by simp
qed

section \<open>The failure analyst's last return and the subscript in \<open>process_bug\<close>\<close>

lemma analysis_attempt_fails:
  assumes "analyst_call_fails (client self (api_calls w) prompt)"
  shows "analysis_attempt self prompt w = Continue (sleep 1 (called w))"
  using assms
  by (auto simp: analysis_attempt_def analyst_call_fails_def split: api_reply.splits)

lemma failure_analysis_loop_exhausted:
  assumes "\<forall>n. analyst_call_fails (client self n prompt)"
  shows "fst (failure_analysis_loop self prompt attempt w) =
           [(''analysis'', SStr ''Failed to generate intelligent suggestions due to API error.'')]"
  using assms
proof (induction self prompt attempt w rule: failure_analysis_loop.induct)
  case (1 self prompt attempt w)
  show ?case
  proof (cases "attempt < max_retries (config self)")
    case False
    then show ?thesis
      by (simp add: failure_analysis_loop.simps)
  next
    case True
    have step: "analysis_attempt self prompt w = Continue (sleep 1 (called w))"
      using "1.prems" by (simp add: analysis_attempt_fails)
    have "failure_analysis_loop self prompt attempt w =
          failure_analysis_loop self prompt (attempt + 1) (sleep 1 (called w))"
      using True step by (subst failure_analysis_loop.simps) simp
    then show ?thesis
      using "1.IH" [OF True step "1.prems"] by simp
  qed
qed

text \<open>
  Whenever no fix was generated and every call of the failure analyst raises or returns no
  text, the analyst's dictionary has no key \<^verbatim>\<open>success\<close> and \<open>process_bug\<close> raises.
\<close>

lemma process_bug_analyst_exhausted:
  assumes "fst (fst (generate_fix self (b_name bug) codebase_content w)) = []"
    and "\<forall>n prompt. analyst_call_fails (client self n prompt)"
  shows "fst (process_bug self bug codebase_content w) = Inl (KeyError ''success'')"
proof -
  obtain code meta w1 where g: "generate_fix self (b_name bug) codebase_content w = ((code, meta), w1)"
    by (metis surj_pair)
  have c: "code = []"
    using assms(1) g by simp
  define e where
    "e = (case map_of meta ''error'' of Some (MStr e) \<Rightarrow> e | _ \<Rightarrow> ''No code solution generated.'')"
  obtain sugg w2 where
    a: "generate_failure_analysis_and_suggestions self (b_name bug) e [] codebase_content w1 =
          (sugg, w2)"
    by (metis surj_pair)
  have "fst (generate_failure_analysis_and_suggestions self (b_name bug) e [] codebase_content w1) =
          [(''analysis'', SStr ''Failed to generate intelligent suggestions due to API error.'')]"
    using assms(2)
    by (simp add: generate_failure_analysis_and_suggestions_def Let_def
                  failure_analysis_loop_exhausted)
  then have
    "sugg = [(''analysis'', SStr ''Failed to generate intelligent suggestions due to API error.'')]"
    using a by simp
  then show ?thesis
    using g c a by (simp add: process_bug_def Let_def e_def)
qed

text \<open>
  C1. The silent API returns an empty text on every call. For the defect
  \<^verbatim>\<open>Permission Bug\<close> the fix generator uses up its five attempts and returns the empty code;
  the failure analyst uses up its five attempts and returns a dictionary whose only key is
  \<^verbatim>\<open>analysis\<close>; \<open>process_bug\<close> then raises \<^verbatim>\<open>KeyError\<close> on the subscript \<^verbatim>\<open>["success"]\<close> instead
  of returning an outcome with a placeholder text.
\<close>

theorem process_bug_raises_key_error:
  "fst (fst (generate_fix silent_agent ''Permission Bug'' ''snapshot'' world0)) = [] \<and>
   map fst (fst (generate_failure_analysis_and_suggestions silent_agent ''Permission Bug''
                   ''No response from API after max retries'' [] ''snapshot''
                   (snd (generate_fix silent_agent ''Permission Bug'' ''snapshot'' world0)))) =
     [''analysis''] \<and>
   process_bug silent_agent permission_bug ''snapshot'' world0 =
     (Inl (KeyError ''success''), \<lparr>api_calls = 10, slept = 13\<rparr>)"
  by code_simp

section \<open>The loop over the catalogue\<close>

lemma process_all_invariant:
  assumes "process_all self codebase_content bugs st = (r, st')"
    and "bugs_processed st = length (bug_results st)"
  shows "bugs_processed st' = length (bug_results st') \<and> report_file st' = report_file st"
  using assms
proof (induction bugs arbitrary: st)
  case Nil
  then show ?case by simp
next
  case (Cons bug bugs)
  show ?case
  proof (cases "process_bug self bug codebase_content (rw st)")
    case (Pair res w')
    show ?thesis
    proof (cases res)
      case (Inl e)
      then show ?thesis
        using Cons.prems Pair by auto
    next
      case (Inr result)
      then show ?thesis
        using Cons.prems Pair by (auto dest!: Cons.IH)
    qed
  qed
qed

text \<open>
  While no exception leaves \<open>process_bug\<close>, the loop appends one outcome per defect, in the
  order of the catalogue.
\<close>

lemma process_all_outcomes:
  assumes "process_all self codebase_content bugs st = (None, st')"
  shows "map r_bug_name (bug_results st') = map r_bug_name (bug_results st) @ map b_name bugs"
  using assms
proof (induction bugs arbitrary: st)
  case Nil
  then show ?case by simp
next
  case (Cons bug bugs)
  show ?case
  proof (cases "process_bug self bug codebase_content (rw st)")
    case (Pair res w')
    show ?thesis
    proof (cases res)
      case (Inl e)
      then show ?thesis
        using Cons.prems Pair by auto
    next
      case (Inr result)
      then have n: "r_bug_name result = b_name bug"
        using Pair process_bug_name [of self bug codebase_content "rw st" result] by simp
      show ?thesis
        using Cons.prems Pair Inr n by (auto dest!: Cons.IH)
    qed
  qed
qed

text \<open>
  C2. With an API whose every call raises, the run over a catalogue of two defects ends in
  the first iteration: \<^verbatim>\<open>KeyError\<close> leaves \<open>process_bug\<close> and \<^verbatim>\<open>run\<close>, no outcome is appended, the
  second defect is never processed and no report is written.
\<close>

theorem run_aborts_before_report:
  "fst (run unreachable_runner) = Inl (KeyError ''success'') \<and>
   bug_results (snd (run unreachable_runner)) = [] \<and>
   bugs_processed (snd (run unreachable_runner)) = 0 \<and>
   report_file (snd (run unreachable_runner)) = None \<and>
   rw (snd (run unreachable_runner)) = \<lparr>api_calls = 10, slept = 13\<rparr>"
  by code_simp

section \<open>The report's success rate\<close>

lemma generate_report_cases:
  "(outcomes \<noteq> [] \<longrightarrow> (\<exists>report. generate_report cfg h outcomes = Inr report)) \<and>
   (outcomes = [] \<longrightarrow> generate_report cfg h outcomes = Inl ZeroDivisionError)"
  by (simp add: generate_report_def Let_def)

text \<open>
  C3, as the claim states it: the report of the empty outcome sequence. The division by
  the number of outcomes raises.
\<close>

theorem generate_report_empty_raises:
  "generate_report Config example_host ([] :: unit result_payload list) = Inl ZeroDivisionError"
  by code_simp

text \<open>
  C3, amended. \<open>generate_report\<close> returns a report for every non-empty outcome sequence; the
  success rate is computed without a guard, and for the empty sequence the call raises
  \<^verbatim>\<open>ZeroDivisionError\<close>.
\<close>

theorem generate_report_defined_iff_nonempty:
  "(outcomes \<noteq> [] \<longrightarrow> (\<exists>report. generate_report cfg h outcomes = Inr report)) \<and>
   (outcomes = [] \<longrightarrow> generate_report cfg h outcomes = Inl ZeroDivisionError)"
  by (simp add: generate_report_def Let_def)

theorem generate_report_defined_iff_nonempty_witness:
  "[failed_outcome] \<noteq> [] \<and>
   (\<exists>report. generate_report small_config example_host [failed_outcome] = Inr report) \<and>
   generate_report small_config example_host ([] :: unit result_payload list) =
     Inl ZeroDivisionError"
  using generate_report_defined_iff_nonempty [of "[failed_outcome]" small_config example_host]
    generate_report_defined_iff_nonempty
      [of "[] :: unit result_payload list" small_config example_host]
  by simp

section \<open>The result of a run and the exit status\<close>

lemma run_cases:
  "(fst (run self) = Inr False \<and> snd (run self) = initial_state) \<or>
   (\<exists>e. fst (run self) = Inl e \<and> report_file (snd (run self)) = None) \<or>
   (fst (run self) = Inr (bugs_failed (snd (run self)) = 0) \<and>
    report_file (snd (run self)) \<noteq> None)"
proof (cases "setup_ok (host self) \<and> codebase_file (host self) \<noteq> None \<and>
              codebase_file (host self) \<noteq> Some []")
  case False
  then show ?thesis
    by (auto simp: run_def Let_def split: option.splits)
next
  case True
  then obtain c where c: "codebase_file (host self) = Some c" "c \<noteq> []"
    by auto
  obtain r st where p: "process_all (agent self) c (planted_bugs self) initial_state = (r, st)"
    by (cases "process_all (agent self) c (planted_bugs self) initial_state")
  have inv: "bugs_processed st = length (bug_results st) \<and> report_file st = None"
    using process_all_invariant [OF p] by (simp add: initial_state_def)
  show ?thesis
  proof (cases r)
    case (Some e)
    then show ?thesis
      using True c p inv by (simp add: run_def)
  next
    case None
    show ?thesis
    proof (cases "bug_results st = []")
      case empty: True
      then have "generate_report (config (agent self)) (host self) (bug_results st) =
                   Inl ZeroDivisionError"
        using generate_report_cases by blast
      then show ?thesis
        using True c p inv None by (simp add: run_def)
    next
      case nonempty: False
      then obtain report where
        "generate_report (config (agent self)) (host self) (bug_results st) = Inr report"
        using generate_report_cases by blast
      then show ?thesis
        using True c p inv None nonempty by (simp add: run_def Let_def)
    qed
  qed
qed

text \<open>
  C7. A run that has written its report returns whether the counter of failed defects is
  zero. The process exits with status 0 exactly when the run has written its report and
  that counter is zero; in every other case (a run with failures, a run that stops before
  processing, an exception, a runner that cannot be built) the status is 1.
\<close>

theorem run_result_and_exit_status:
  fixes self :: "'sa runner"
  shows
  "(report_file (snd (run self)) \<noteq> None \<longrightarrow>
      fst (run self) = Inr (bugs_failed (snd (run self)) = 0)) \<and>
   (main (Inr self) = 0 \<longleftrightarrow>
      report_file (snd (run self)) \<noteq> None \<and> bugs_failed (snd (run self)) = 0) \<and>
   (main (Inr self) \<noteq> 0 \<longrightarrow> main (Inr self) = 1) \<and>
   main (Inl e :: py_error + 'sa runner) = 1"
  using run_cases [of self]
  by (auto simp: main_def initial_state_def split: sum.splits)

theorem run_result_and_exit_status_witness:
  "report_file (snd (run late_runner)) \<noteq> None \<and>
   bugs_failed (snd (run late_runner)) = 0 \<and>
   fst (run late_runner) = Inr True \<and>
   main (Inr late_runner) = 0 \<and>
   main (Inr unreachable_runner) \<noteq> 0 \<and>
   main (Inr unreachable_runner) = 1 \<and>
   main (Inl (ValueError ''GOOGLE_API_KEY or GEMINI_API_KEY not found.'') :: py_error + unit runner) = 1"
proof -
  have a: "report_file (snd (run late_runner)) \<noteq> None \<and> bugs_failed (snd (run late_runner)) = 0"
    by code_simp
  have b: "report_file (snd (run unreachable_runner)) = None"
    by code_simp
  show ?thesis
    using run_result_and_exit_status
            [of late_runner "ValueError ''GOOGLE_API_KEY or GEMINI_API_KEY not found.''"]
      run_result_and_exit_status
            [of unreachable_runner "ValueError ''GOOGLE_API_KEY or GEMINI_API_KEY not found.''"]
      a b
    by simp
qed

section \<open>Header triples of requested files\<close>

lemma startswith_drop: "startswith b p \<Longrightarrow> b = p @ drop (length p) b"
  by (metis append_take_drop_id startswith_def)

lemma startswith_File: "startswith b ''File: '' \<Longrightarrow> b = ''File: '' @ drop 6 b"
  using startswith_drop [of b "''File: ''"] by (simp add: eval_nat_numeral)

lemma extract_lines_eq:
  "concat (map (\<lambda>l. l @ [CHR 0x0A]) (extract_lines paths ls)) =
   concat (map header_triple (filter (\<lambda>p. p \<in> set paths) (snapshot_paths ls)))"
proof (induction paths ls rule: extract_lines.induct)
  case (1 paths a b c rest)
  show ?case
  proof (cases "a = HEADER_LINE \<and> startswith b ''File: '' \<and> c = HEADER_LINE")
    case True
    then have b: "b = ''File: '' @ drop 6 b" using startswith_File by blast
    show ?thesis using True 1 b
      by (auto simp: header_triple_def)
  next
    case False
    then show ?thesis using 1 by auto
  qed
qed simp_all

lemma split_lines_line:
  "CHR 0x0A \<notin> set l \<Longrightarrow> split_lines (l @ CHR 0x0A # s) = l # split_lines s"
  by (induction l) auto

lemma split_lines_append:
  "split_lines (c @ CHR 0x0A # s) = split_lines c @ split_lines s"
proof (induction c)
  case Nil
  then show ?case by simp
next
  case (Cons d c)
  then show ?case
    by (cases "split_lines c") (auto split: list.splits)
qed

lemma snapshot_paths_skip:
  "x \<noteq> HEADER_LINE \<Longrightarrow> snapshot_paths (x # zs) = snapshot_paths zs"
proof (cases zs)
  case Nil then show ?thesis by simp
next
  case (Cons b zs')
  assume "x \<noteq> HEADER_LINE"
  then show ?thesis using Cons by (cases zs') auto
qed

lemma snapshot_paths_skip_many:
  "HEADER_LINE \<notin> set xs \<Longrightarrow> snapshot_paths (xs @ ys) = snapshot_paths ys"
  by (induction xs) (auto simp: snapshot_paths_skip)

lemma HEADER_LINE_facts [simp]:
  "CHR 0x0A \<notin> set HEADER_LINE" "HEADER_LINE \<noteq> []"
  by (simp_all add: HEADER_LINE_def)

lemma split_lines_write_block:
  assumes "CHR 0x0A \<notin> set (fst f)"
  shows "split_lines (write_block f @ rest) =
           [HEADER_LINE, ''File: '' @ fst f, HEADER_LINE, []]
           @ split_lines (snd f) @ [[]] @ split_lines rest"
proof -
  have fl: "CHR 0x0A \<notin> set (''File: '' @ fst f)"
    using assms by simp
  have "write_block f @ rest =
          HEADER_LINE @ CHR 0x0A # ((''File: '' @ fst f) @ CHR 0x0A #
            (HEADER_LINE @ CHR 0x0A # (CHR 0x0A # (snd f @ CHR 0x0A # (CHR 0x0A # rest)))))"
    by (simp add: write_block_def FILE_SEPARATOR_def)
  then have "split_lines (write_block f @ rest) =
          HEADER_LINE # (''File: '' @ fst f) # HEADER_LINE #
            split_lines (CHR 0x0A # (snd f @ CHR 0x0A # (CHR 0x0A # rest)))"
    using fl by (simp only: split_lines_line HEADER_LINE_facts not_False_eq_True)
  then show ?thesis
    by (simp add: split_lines_append)
qed

lemma snapshot_paths_snapshot_of:
  assumes "\<forall>f \<in> set files. CHR 0x0A \<notin> set (fst f) \<and> HEADER_LINE \<notin> set (split_lines (snd f))"
  shows "snapshot_paths (split_lines (snapshot_of files)) = map fst files"
  using assms
proof (induction files)
  case Nil
  then show ?case by (simp add: snapshot_of_def)
next
  case (Cons f files)
  have nl: "CHR 0x0A \<notin> set (fst f)" and hd: "HEADER_LINE \<notin> set (split_lines (snd f))"
    using Cons.prems by simp_all
  have s: "snapshot_of (f # files) = write_block f @ snapshot_of files"
    by (simp add: snapshot_of_def)
  have skip: "HEADER_LINE \<notin> set ([] # split_lines (snd f) @ [[]])"
    using hd by auto
  have "snapshot_paths (split_lines (snapshot_of (f # files))) =
        fst f # snapshot_paths (([] # split_lines (snd f) @ [[]]) @ split_lines (snapshot_of files))"
    unfolding s split_lines_write_block [OF nl]
    by (simp add: startswith_def)
  also have "\<dots> = fst f # snapshot_paths (split_lines (snapshot_of files))"
    using snapshot_paths_skip_many [OF skip] by simp
  finally show ?case
    using Cons by simp
qed

text \<open>
  C9. For every snapshot text and every sequence of requested paths, the extraction returns
  exactly the header triples (header line, \<^verbatim>\<open>File: <path>\<close> line, header line) of the paths of
  the snapshot that are requested, in snapshot order: a requested path without a header
  triple in the snapshot and a file that is not requested contribute nothing. On a
  snapshot written by the inspector for files whose paths have no line feed and whose
  contents have no line equal to the header line, these are the triples of the requested
  files in the order of the walk, whatever the contents are: no content is included.
\<close>

theorem extract_header_triples:
  "extract_relevant_files_spec snapshot paths =
     concat (map header_triple
               (filter (\<lambda>p. p \<in> set paths) (snapshot_paths (split_lines snapshot)))) \<and>
   ((\<forall>f \<in> set files. CHR 0x0A \<notin> set (fst f) \<and> HEADER_LINE \<notin> set (split_lines (snd f))) \<longrightarrow>
      extract_relevant_files_spec (snapshot_of files) paths =
        concat (map header_triple (filter (\<lambda>p. p \<in> set paths) (map fst files))))"
  using snapshot_paths_snapshot_of [of files]
  by (simp add: extract_relevant_files_spec_def extract_lines_eq)

theorem extract_header_triples_witness:
  "list_all (\<lambda>f. CHR 0x0A \<notin> set (fst f) \<and> HEADER_LINE \<notin> set (split_lines (snd f)))
     example_files \<and>
   extract_relevant_files_spec (snapshot_of example_files) example_paths =
     header_triple ''frontend/src/components/TestFile.tsx''
     @ header_triple ''backend/models/AnotherFile.py''"
proof -
  have h: "\<forall>f \<in> set example_files.
             CHR 0x0A \<notin> set (fst f) \<and> HEADER_LINE \<notin> set (split_lines (snd f))"
    by code_simp
  have "filter (\<lambda>p. p \<in> set example_paths) (map fst example_files) =
          [''frontend/src/components/TestFile.tsx'', ''backend/models/AnotherFile.py'']"
    by code_simp
  moreover have "extract_relevant_files_spec (snapshot_of example_files) example_paths =
          concat (map header_triple
                    (filter (\<lambda>p. p \<in> set example_paths) (map fst example_files)))"
    using extract_header_triples [of "snapshot_of example_files" example_paths example_files] h
    by blast
  ultimately show ?thesis
    using h by (simp add: list_all_iff)
qed

section \<open>Completeness of the fix prompt\<close>

lemma str_in_self: "str_in sub (sub @ post)"
  by (cases sub) (simp_all add: startswith_def, cases post, simp_all add: startswith_def)

lemma str_in_append: "str_in sub (pre @ sub @ post)"
  by (induction pre) (simp_all add: str_in_self)

lemma brace_ok_no_brace: "CHR ''{'' \<notin> set s \<Longrightarrow> brace_ok s"
  by (induction s rule: brace_ok.induct) auto

lemma brace_ok_append: "brace_ok a \<Longrightarrow> brace_ok b \<Longrightarrow> brace_ok (a @ b)"
proof (induction a rule: brace_ok.induct)
  case 1
  then show ?case by simp
next
  case (2 c)
  then show ?case by (cases b) auto
next
  case (3 c d s)
  then show ?case by simp
qed

lemma brace_ok_no_token:
  "brace_ok s \<Longrightarrow> c \<noteq> CHR '' '' \<Longrightarrow> \<not> str_in (CHR ''{'' # c # t) s"
  by (induction s rule: brace_ok.induct) (auto simp: startswith_def)

lemma join_no_brace:
  "\<forall>x \<in> set xs. CHR ''{'' \<notin> set x \<Longrightarrow> CHR ''{'' \<notin> set (join '', '' xs)"
  by (induction "'', ''" xs rule: join.induct) auto

lemma literals_brace_ok:
  "brace_ok fix_prompt_intro" "brace_ok label_description" "brace_ok label_root_cause"
  "brace_ok label_fix_concept" "brace_ok label_affected_files" "brace_ok label_analysis_hints"
  "brace_ok label_code_context" "brace_ok fix_prompt_output_rules"
  by code_simp+

lemma build_fix_prompt_unfold:
  "build_fix_prompt defect hints relevant_content =
     fix_prompt_intro @ b_name defect @ label_description @ b_description defect
     @ label_root_cause @ b_root_cause defect @ label_fix_concept @ b_fix_summary defect
     @ label_affected_files @ join '', '' (b_files defect) @ label_analysis_hints @ hints
     @ label_code_context @ relevant_content @ fix_prompt_output_rules"
  by (simp add: build_fix_prompt_def prompt_template_def)

lemma token_shape: "\<exists>c t. token h = CHR ''{'' # c # t \<and> c \<noteq> CHR '' ''"
  by (cases h) simp_all

text \<open>
  C8. The fix prompt built for a defect contains the defect's name, description, root
  cause, fix summary and comma-joined list of affected files. When none of the substituted
  values (these five, the guidance text and the relevant excerpts) contains an opening
  brace, no placeholder token of the template occurs in the prompt.
\<close>

theorem build_fix_prompt_complete:
  "str_in (b_name defect) (build_fix_prompt defect hints relevant_content) \<and>
   str_in (b_description defect) (build_fix_prompt defect hints relevant_content) \<and>
   str_in (b_root_cause defect) (build_fix_prompt defect hints relevant_content) \<and>
   str_in (b_fix_summary defect) (build_fix_prompt defect hints relevant_content) \<and>
   str_in (join '', '' (b_files defect)) (build_fix_prompt defect hints relevant_content) \<and>
   (CHR ''{'' \<notin> set (b_name defect) \<and> CHR ''{'' \<notin> set (b_description defect) \<and>
    CHR ''{'' \<notin> set (b_root_cause defect) \<and> CHR ''{'' \<notin> set (b_fix_summary defect) \<and>
    (\<forall>f \<in> set (b_files defect). CHR ''{'' \<notin> set f) \<and>
    CHR ''{'' \<notin> set hints \<and> CHR ''{'' \<notin> set relevant_content \<longrightarrow>
    (\<forall>h. \<not> str_in (token h) (build_fix_prompt defect hints relevant_content)))"
proof -
  let ?P = "build_fix_prompt defect hints relevant_content"
  let ?after_name = "label_description @ b_description defect @ label_root_cause
     @ b_root_cause defect @ label_fix_concept @ b_fix_summary defect @ label_affected_files
     @ join '', '' (b_files defect) @ label_analysis_hints @ hints @ label_code_context
     @ relevant_content @ fix_prompt_output_rules"
  let ?after_description = "label_root_cause
     @ b_root_cause defect @ label_fix_concept @ b_fix_summary defect @ label_affected_files
     @ join '', '' (b_files defect) @ label_analysis_hints @ hints @ label_code_context
     @ relevant_content @ fix_prompt_output_rules"
  let ?after_root_cause = "label_fix_concept @ b_fix_summary defect @ label_affected_files
     @ join '', '' (b_files defect) @ label_analysis_hints @ hints @ label_code_context
     @ relevant_content @ fix_prompt_output_rules"
  let ?after_fix_concept = "label_affected_files
     @ join '', '' (b_files defect) @ label_analysis_hints @ hints @ label_code_context
     @ relevant_content @ fix_prompt_output_rules"
  let ?after_files = "label_analysis_hints @ hints @ label_code_context
     @ relevant_content @ fix_prompt_output_rules"
  have n: "str_in (b_name defect) ?P"
    using str_in_append [of "b_name defect" fix_prompt_intro ?after_name]
    by (simp add: build_fix_prompt_unfold)
  have d: "str_in (b_description defect) ?P"
    using str_in_append [of "b_description defect"
            "fix_prompt_intro @ b_name defect @ label_description" ?after_description]
    by (simp add: build_fix_prompt_unfold)
  have r: "str_in (b_root_cause defect) ?P"
    using str_in_append [of "b_root_cause defect"
            "fix_prompt_intro @ b_name defect @ label_description @ b_description defect
             @ label_root_cause" ?after_root_cause]
    by (simp add: build_fix_prompt_unfold)
  have f: "str_in (b_fix_summary defect) ?P"
    using str_in_append [of "b_fix_summary defect"
            "fix_prompt_intro @ b_name defect @ label_description @ b_description defect
             @ label_root_cause @ b_root_cause defect @ label_fix_concept" ?after_fix_concept]
    by (simp add: build_fix_prompt_unfold)
  have a: "str_in (join '', '' (b_files defect)) ?P"
    using str_in_append [of "join '', '' (b_files defect)"
            "fix_prompt_intro @ b_name defect @ label_description @ b_description defect
             @ label_root_cause @ b_root_cause defect @ label_fix_concept
             @ b_fix_summary defect @ label_affected_files" ?after_files]
    by (simp add: build_fix_prompt_unfold)
  have t: "\<forall>h. \<not> str_in (token h) ?P"
    if "CHR ''{'' \<notin> set (b_name defect)" "CHR ''{'' \<notin> set (b_description defect)"
      "CHR ''{'' \<notin> set (b_root_cause defect)" "CHR ''{'' \<notin> set (b_fix_summary defect)"
      "\<forall>f \<in> set (b_files defect). CHR ''{'' \<notin> set f"
      "CHR ''{'' \<notin> set hints" "CHR ''{'' \<notin> set relevant_content"
  proof -
    have vals:
      "brace_ok (b_name defect)" "brace_ok (b_description defect)"
      "brace_ok (b_root_cause defect)" "brace_ok (b_fix_summary defect)"
      "brace_ok (join '', '' (b_files defect))" "brace_ok hints" "brace_ok relevant_content"
      using that by (simp_all add: brace_ok_no_brace join_no_brace)
    have "brace_ok ?P"
      unfolding build_fix_prompt_unfold
      by (intro brace_ok_append vals literals_brace_ok)
    then show ?thesis
      using token_shape brace_ok_no_token by metis
  qed
  show ?thesis
    using n d r f a t by blast
qed


theorem build_fix_prompt_complete_witness:
  "CHR ''{'' \<notin> set (b_name permission_bug) \<and>
   CHR ''{'' \<notin> set (b_description permission_bug) \<and>
   CHR ''{'' \<notin> set (b_root_cause permission_bug) \<and>
   CHR ''{'' \<notin> set (b_fix_summary permission_bug) \<and>
   list_all (\<lambda>f. CHR ''{'' \<notin> set f) (b_files permission_bug) \<and>
   str_in ''Permission Bug''
     (build_fix_prompt permission_bug ''Only change get_queryset.''
        (header_triple ''backend/todos/views.py'')) \<and>
   str_in ''backend/todos/views.py''
     (build_fix_prompt permission_bug ''Only change get_queryset.''
        (header_triple ''backend/todos/views.py'')) \<and>
   \<not> str_in ''{bug_name}''
     (build_fix_prompt permission_bug ''Only change get_queryset.''
        (header_triple ''backend/todos/views.py''))"
proof -
  have v: "CHR ''{'' \<notin> set (b_name permission_bug)"
    "CHR ''{'' \<notin> set (b_description permission_bug)"
    "CHR ''{'' \<notin> set (b_root_cause permission_bug)"
    "CHR ''{'' \<notin> set (b_fix_summary permission_bug)"
    "\<forall>f \<in> set (b_files permission_bug). CHR ''{'' \<notin> set f"
    "CHR ''{'' \<notin> set ''Only change get_queryset.''"
    "CHR ''{'' \<notin> set (header_triple ''backend/todos/views.py'')"
    by code_simp+
  have n: "b_name permission_bug = ''Permission Bug''"
    "join '', '' (b_files permission_bug) = ''backend/todos/views.py''"
    "token PBugName = ''{bug_name}''"
    by (simp_all add: permission_bug_def)
  note c = build_fix_prompt_complete
             [of permission_bug "''Only change get_queryset.''"
                 "header_triple ''backend/todos/views.py''"]
  have "\<forall>h. \<not> str_in (token h)
              (build_fix_prompt permission_bug ''Only change get_queryset.''
                 (header_triple ''backend/todos/views.py''))"
    using c v by blast
  then have "\<not> str_in (token PBugName)
              (build_fix_prompt permission_bug ''Only change get_queryset.''
                 (header_triple ''backend/todos/views.py''))"
    by blast
  then show ?thesis
    using c v n by (simp add: list_all_iff)
qed

end
